theory Spec2Isabelle
  imports Complex_Main
begin

section \<open>Strings\<close>

text \<open>
  A JavaScript string is modelled as a \<^typ>\<open>string\<close>: a list of code units below 256
  (Latin-1). The URLs the browser hands to the detector are ASCII serialisations, and
  every literal the detector compares with is ASCII.
\<close>

definition code :: "char \<Rightarrow> nat" where
  "code c = of_char c"

text \<open>\<open>String.prototype.toLowerCase\<close> on code units below 256.\<close>

definition lowerChar :: "char \<Rightarrow> char" where
  "lowerChar c =
     (let n = code c
      in if (65 \<le> n \<and> n \<le> 90) \<or> (192 \<le> n \<and> n \<le> 222 \<and> n \<noteq> 215)
         then char_of (n + 32) else c)"

definition toLowerCase :: "string \<Rightarrow> string" where
  "toLowerCase s = map lowerChar s"

text \<open>
  The canonical form of a character under the \<open>i\<close> flag. A code unit of 128 or more is
  never canonicalised to an ASCII one, and every pattern character of the detector is
  ASCII, so only the ASCII letters are folded.
\<close>

definition upperAscii :: "char \<Rightarrow> char" where
  "upperAscii c = (let n = code c in if 97 \<le> n \<and> n \<le> 122 then char_of (n - 32) else c)"

definition ceq :: "bool \<Rightarrow> char \<Rightarrow> char \<Rightarrow> bool" where
  "ceq ci p c = (if ci then upperAscii p = upperAscii c else p = c)"

text \<open>
  \<open>stripPrefixBy eq p s\<close> is the rest of \<open>s\<close> after its prefix \<open>p\<close>, the characters
  compared by \<open>eq\<close>; \<open>s.startsWith(p)\<close> asks whether there is one.
\<close>

fun stripPrefixBy :: "(char \<Rightarrow> char \<Rightarrow> bool) \<Rightarrow> string \<Rightarrow> string \<Rightarrow> string option" where
  "stripPrefixBy eq [] s = Some s"
| "stripPrefixBy eq (p # ps) [] = None"
| "stripPrefixBy eq (p # ps) (c # cs) = (if eq p c then stripPrefixBy eq ps cs else None)"

definition startsWith :: "string \<Rightarrow> string \<Rightarrow> bool" where
  "startsWith s p = (stripPrefixBy (=) p s \<noteq> None)"

text \<open>\<open>s.includes(sub)\<close>: \<open>sub\<close> occurs at some offset of \<open>s\<close>.\<close>

fun includes_str :: "string \<Rightarrow> string \<Rightarrow> bool" where
  "includes_str [] sub = (sub = [])"
| "includes_str (c # cs) sub = (startsWith (c # cs) sub \<or> includes_str cs sub)"

text \<open>\<open>s.split('?')[0]\<close>: the part of \<open>s\<close> before its first question mark.\<close>

definition splitQuery0 :: "string \<Rightarrow> string" where
  "splitQuery0 s = takeWhile (\<lambda>c. c \<noteq> CHR ''?'') s"

definition isDigit :: "char \<Rightarrow> bool" where
  "isDigit c = (48 \<le> code c \<and> code c \<le> 57)"

definition isWordChar :: "char \<Rightarrow> bool" where
  "isWordChar c =
     (let n = code c
      in (48 \<le> n \<and> n \<le> 57) \<or> (65 \<le> n \<and> n \<le> 90) \<or> (97 \<le> n \<and> n \<le> 122) \<or> n = 95)"

text \<open>The value of a decimal digit and of a string of decimal digits.\<close>

definition digitVal :: "char \<Rightarrow> int" where
  "digitVal c = int (code c) - 48"

definition digitsVal :: "string \<Rightarrow> int" where
  "digitsVal ds = foldl (\<lambda>a c. 10 * a + digitVal c) 0 ds"

text \<open>
  The decimal numeral of a natural number: what a template literal prints for a number
  that is an integer below \<open>2 ^ 53\<close>.
\<close>

definition digitChar :: "int \<Rightarrow> char" where
  "digitChar d = ''0123456789'' ! nat (d mod 10)"

function showNat :: "int \<Rightarrow> string" where
  "showNat n = (if n < 10 then [digitChar n] else showNat (n div 10) @ [digitChar n])"
  by pat_completeness auto
termination
  by (relation "measure nat") auto

declare showNat.simps [simp del]

section \<open>Regular expressions\<close>

text \<open>
  The fragment of JavaScript regular expressions that the detectors use: literals,
  character classes, greedy repetition of a class, sequence, alternation, the greedy
  option, one capture group and the end anchor. Every pattern is searched without the
  \<open>g\<close>, \<open>m\<close>, \<open>s\<close> and \<open>u\<close> flags.
\<close>

datatype cls =
    Dot
  | Digit
  | Word
  | OneOf string
  | NoneOf string

fun in_cls :: "cls \<Rightarrow> char \<Rightarrow> bool" where
  "in_cls Dot c = (c \<noteq> CHR 0x0A \<and> c \<noteq> CHR 0x0D)"
| "in_cls Digit c = isDigit c"
| "in_cls Word c = isWordChar c"
| "in_cls (OneOf cs) c = (c \<in> set cs)"
| "in_cls (NoneOf cs) c = (c \<notin> set cs)"

datatype rx =
    Lit string
  | Cls cls
  | Rep cls nat "nat option"
  | Seq rx rx
  | Alt rx rx
  | Opt rx
  | Cap rx
  | Eos

text \<open>
  A matcher state is the text captured by group 1, if any, and the input still to be
  read. \<open>ms ci r st\<close> lists the states in which \<open>r\<close> can end when it starts in \<open>st\<close>, in
  the order a backtracking matcher tries them: the longer repetition first, the left
  alternative first, the option taken first. \<open>ci\<close> is the \<open>i\<close> flag.
\<close>

type_synonym mstate = "string option \<times> string"

fun ms :: "bool \<Rightarrow> rx \<Rightarrow> mstate \<Rightarrow> mstate list" where
  "ms ci (Lit l) (cap, s) =
     (case stripPrefixBy (ceq ci) l s of None \<Rightarrow> [] | Some rest \<Rightarrow> [(cap, rest)])"
| "ms ci (Cls c) (cap, s) =
     (case s of [] \<Rightarrow> [] | x # xs \<Rightarrow> if in_cls c x then [(cap, xs)] else [])"
| "ms ci (Rep c lo hi) (cap, s) =
     (let k = length (takeWhile (in_cls c) s);
          k' = (case hi of None \<Rightarrow> k | Some b \<Rightarrow> min k b)
      in map (\<lambda>j. (cap, drop j s)) (rev [lo..<Suc k']))"
| "ms ci (Seq a b) st = concat (map (ms ci b) (ms ci a st))"
| "ms ci (Alt a b) st = ms ci a st @ ms ci b st"
| "ms ci (Opt a) st = ms ci a st @ [st]"
| "ms ci (Cap a) (cap, s) =
     map (\<lambda>(c, s'). (Some (take (length s - length s') s), s')) (ms ci a (cap, s))"
| "ms ci Eos (cap, s) = (if s = [] then [(cap, s)] else [])"

text \<open>
  \<open>s.match(r)\<close>: the first offset of \<open>s\<close> at which \<open>r\<close> matches, and there the first
  match in backtracking order. The result is \<open>None\<close> when there is no match and
  otherwise \<open>Some\<close> of the text of group 1 (\<open>None\<close> when the group took no part).
\<close>

fun rx_exec :: "bool \<Rightarrow> rx \<Rightarrow> string \<Rightarrow> string option option" where
  "rx_exec ci r [] = (case ms ci r (None, []) of [] \<Rightarrow> None | (c, _) # _ \<Rightarrow> Some c)"
| "rx_exec ci r (x # xs) =
     (case ms ci r (None, x # xs) of [] \<Rightarrow> rx_exec ci r xs | (c, _) # _ \<Rightarrow> Some c)"

text \<open>\<open>r.test(s)\<close>.\<close>

definition rx_test :: "bool \<Rightarrow> rx \<Rightarrow> string \<Rightarrow> bool" where
  "rx_test ci r s = (rx_exec ci r s \<noteq> None)"

text \<open>\<open>r.test(s)\<close> for a pattern that starts with \<open>^\<close>: only offset 0 is tried.\<close>

definition rx_test_anchored :: "bool \<Rightarrow> rx \<Rightarrow> string \<Rightarrow> bool" where
  "rx_test_anchored ci r s = (ms ci r (None, s) \<noteq> [])"

fun seqs :: "rx list \<Rightarrow> rx" where
  "seqs [] = Lit []"
| "seqs [r] = r"
| "seqs (r # rs) = Seq r (seqs rs)"

fun alts :: "rx list \<Rightarrow> rx" where
  "alts [] = Lit []"
| "alts [r] = r"
| "alts (r # rs) = Alt r (alts rs)"

section \<open>Numbers\<close>

text \<open>
  A JavaScript number that comes from \<open>parseInt\<close>: \<open>NaN\<close> or an integer. \<open>parseInt\<close>
  returns the double nearest to the integer it reads; the tests the detector makes on
  it (is it zero, is it below 5000) have the same answer on the integer itself.
\<close>

datatype jsnum = NaN | Num int

definition truthyNum :: "jsnum option \<Rightarrow> bool" where
  "truthyNum v = (case v of None \<Rightarrow> False | Some NaN \<Rightarrow> False | Some (Num n) \<Rightarrow> n \<noteq> 0)"

definition numLess :: "jsnum option \<Rightarrow> int \<Rightarrow> bool" where
  "numLess v b = (case v of None \<Rightarrow> False | Some NaN \<Rightarrow> False | Some (Num n) \<Rightarrow> n < b)"

definition isWhiteSpace :: "char \<Rightarrow> bool" where
  "isWhiteSpace c =
     (c \<in> set [CHR 0x09, CHR 0x0A, CHR 0x0B, CHR 0x0C, CHR 0x0D, CHR 0x20, CHR 0xA0])"

text \<open>
  \<open>parseInt(s, 10)\<close>: leading white space is skipped, one sign is read, then the longest
  run of decimal digits; no digit gives \<open>NaN\<close>.
\<close>

definition parseInt10 :: "string \<Rightarrow> jsnum" where
  "parseInt10 s =
     (let t = dropWhile isWhiteSpace s;
          neg = (case t of [] \<Rightarrow> False | c # _ \<Rightarrow> c = CHR ''-'');
          u = (case t of [] \<Rightarrow> [] | c # r \<Rightarrow> if c = CHR ''-'' \<or> c = CHR ''+'' then r else t);
          ds = takeWhile isDigit u
      in if ds = [] then NaN
         else Num (if neg then - digitsVal ds else digitsVal ds))"

section \<open>The stream detector\<close>

datatype StreamType = mp4 | webm | hls | dash | flv | unknown

text \<open>
  A quality label. \<open>Label t\<close> is the string \<open>t\<close>. \<open>NumeralP n\<close>, for an integer \<open>n\<close>
  of \<open>2 ^ 53\<close> or more, is the string \<open>`${num}p`\<close> where \<open>num\<close> is the double that
  \<open>parseInt\<close> returns for a digit string of value \<open>n\<close>: the double is not \<open>n\<close> in
  general, it prints in exponent notation from \<open>10 ^ 21\<close> on, and how \<open>parseInt\<close>
  reads more than 20 digits is left to the implementation, so the characters of this
  string are not modelled.
\<close>

datatype QualityLabel = Label string | NumeralP int

record DetectedStream =
  ds_url :: string
  ds_type :: StreamType
  ds_size :: "jsnum option"
  ds_quality :: "QualityLabel option"
  ds_contentType :: "string option"
  ds_timestamp :: int

record HttpHeader =
  h_name :: string
  h_value :: "string option"

record WebResponseDetails =
  wr_url :: string
  wr_tabId :: int
  wr_type :: string
  wr_statusCode :: "int option"
  wr_responseHeaders :: "HttpHeader list option"

text \<open>The detector's state: the streams of each tab, a \<open>Map\<close> from tab ids to arrays.\<close>

record StreamDetector =
  streams :: "int \<rightharpoonup> DetectedStream list"

definition newStreamDetector :: StreamDetector where
  "newStreamDetector = \<lparr>streams = Map.empty\<rparr>"

definition VIDEO_MIME_TYPES :: "string list" where
  "VIDEO_MIME_TYPES =
     [''video/mp4'', ''video/webm'', ''video/ogg'', ''video/x-flv'', ''video/quicktime'',
      ''video/x-msvideo'', ''video/x-matroska'', ''video/3gpp'', ''video/mpeg'',
      ''video/mp2t'', ''application/x-mpegURL'', ''application/vnd.apple.mpegurl'',
      ''application/dash+xml'', ''application/octet-stream'']"

text \<open>The tail \<open>(?:\?|$|#)\<close> of the extension patterns, and \<open>(?:\?|$)\<close>.\<close>

definition endQH :: rx where
  "endQH = alts [Lit ''?'', Eos, Lit ''#'']"

definition endQ :: rx where
  "endQ = alts [Lit ''?'', Eos]"

definition ext :: "string \<Rightarrow> rx" where
  "ext e = Seq (Lit e) endQH"

definition withGap :: "string \<Rightarrow> string \<Rightarrow> rx" where
  "withGap a b = seqs [Lit a, Rep Dot 0 None, Lit b]"

definition VIDEO_URL_PATTERNS :: "rx list" where
  "VIDEO_URL_PATTERNS =
     [ext ''.mp4'', ext ''.webm'', ext ''.m3u8'', ext ''.mpd'', ext ''.flv'', ext ''.ts'',
      ext ''.m4s'', ext ''.m4v'', ext ''.mov'', ext ''.avi'', ext ''.mkv'', ext ''.3gp'',
      Seq (Lit ''/manifest'') (Opt (alts [Lit ''.m3u8'', Lit ''.mpd''])),
      Lit ''/playlist.m3u8'',
      Lit ''/master.m3u8'',
      Lit ''/index.m3u8'',
      Lit ''videoplayback'',
      Lit ''googlevideo.com'',
      withGap ''ytimg.com'' ''.webm'',
      withGap ''.akamaihd.net'' ''video'',
      withGap ''cloudfront'' ''video'',
      withGap ''.fbcdn.net'' ''video'',
      withGap ''twimg.com'' ''video'',
      withGap ''.tiktokcdn.com'' ''video'',
      withGap ''.instagram.com'' ''video'',
      Lit ''vimeocdn.com'',
      Lit ''player.vimeo.com'',
      withGap ''dailymotion.com'' ''video'',
      Lit ''.brightcove'',
      Lit ''.jwplatform'',
      Lit ''.jwpcdn'',
      Lit ''bitmovin'',
      Lit ''.hls.'',
      Lit ''.dash.'',
      Lit ''streaming'',
      withGap ''media'' ''.mp4'',
      withGap ''video'' ''.mp4'',
      withGap ''cdn'' ''video'']"

definition EXCLUDE_PATTERNS :: "rx list" where
  "EXCLUDE_PATTERNS =
     [Lit ''googleads'', Lit ''doubleclick'', Lit ''googlesyndication'',
      Lit ''googleadservices'', Lit ''analytics'', Lit ''tracking'', Lit ''pixel'',
      Lit ''beacon'', Lit ''telemetry'',
      Seq (Lit ''.gif'') endQ, Seq (Lit ''.png'') endQ, Seq (Lit ''.jpg'') endQ,
      Seq (Lit ''.jpeg'') endQ, Seq (Lit ''.svg'') endQ, Seq (Lit ''.ico'') endQ,
      Lit ''.woff'', Lit ''.ttf'',
      Seq (Lit ''.css'') endQ, Seq (Lit ''.js'') endQ,
      Lit ''favicon'', Lit ''thumbnail'', Lit ''preview'', Lit ''poster'']"

text \<open>The three tests of \<open>handleResponse\<close> on the URL and the content type.\<close>

definition isExcluded :: "string \<Rightarrow> bool" where
  "isExcluded url = list_ex (\<lambda>pattern. rx_test True pattern url) EXCLUDE_PATTERNS"

definition isVideoMime :: "string \<Rightarrow> bool" where
  "isVideoMime contentType =
     list_ex (\<lambda>mime. includes_str contentType (toLowerCase mime)) VIDEO_MIME_TYPES"

definition isVideoUrl :: "string \<Rightarrow> bool" where
  "isVideoUrl url = list_ex (\<lambda>pattern. rx_test True pattern url) VIDEO_URL_PATTERNS"

definition isMediaType :: "string \<Rightarrow> bool" where
  "isMediaType t = (t = ''media'' \<or> t = ''xmlhttprequest'' \<or> t = ''other'')"

definition looksLikeVideo :: "string \<Rightarrow> string \<Rightarrow> bool" where
  "looksLikeVideo url contentType =
     (if includes_str contentType ''octet-stream''
      then rx_test True
             (alts [Lit ''video'', Lit ''media'', Lit ''stream'', Lit ''play'', Lit ''watch''])
             url
      else length (filter (\<lambda>kw. includes_str (toLowerCase url) kw)
             [''video'', ''media'', ''stream'', ''play'', ''watch'', ''clip'', ''movie''])
           \<ge> 1)"

definition detectStreamType :: "string \<Rightarrow> string \<Rightarrow> StreamType" where
  "detectStreamType url contentType =
     (let urlLower = toLowerCase url; ctLower = toLowerCase contentType
      in if includes_str urlLower ''.m3u8'' \<or> includes_str ctLower ''mpegurl''
            \<or> includes_str ctLower ''x-mpegurl'' then hls
         else if includes_str urlLower ''.mpd'' \<or> includes_str ctLower ''dash'' then dash
         else if includes_str urlLower ''.mp4'' \<or> includes_str urlLower ''.m4v''
            \<or> includes_str ctLower ''mp4'' then mp4
         else if includes_str urlLower ''.webm'' \<or> includes_str ctLower ''webm'' then webm
         else if includes_str urlLower ''.flv'' \<or> includes_str ctLower ''flv'' then flv
         else if includes_str urlLower ''.ts'' \<or> includes_str urlLower ''.m4s''
            \<or> includes_str ctLower ''mp2t'' then hls
         else unknown)"

subsection \<open>Quality labels\<close>

text \<open>The seven patterns of \<open>detectQuality\<close>, in the order of its array.\<close>

definition qHeightP :: rx where
  "qHeightP = seqs [Cap (Rep Digit 3 (Some 4)), Lit ''p'']"

definition qWidthOfWxH :: rx where
  "qWidthOfWxH = seqs [Cap (Rep Digit 3 (Some 4)), Lit ''x'', Rep Digit 3 (Some 4)]"

definition qHeightOfWxH :: rx where
  "qHeightOfWxH = seqs [Rep Digit 3 (Some 4), Lit ''x'', Cap (Rep Digit 3 (Some 4))]"

definition qQualityParam :: rx where
  "qQualityParam = seqs [Lit ''quality'', Opt (Cls (OneOf ''=_-'')), Cap (Rep Word 1 None)]"

definition qItag :: rx where
  "qItag = seqs [Lit ''itag'', Cls (OneOf ''=_''), Cap (Rep Digit 1 None)]"

definition qRes :: rx where
  "qRes = seqs [Lit ''res'', Cls (OneOf ''=_''), Cap (Rep Digit 1 None)]"

definition qToken :: rx where
  "qToken =
     seqs [Cls (OneOf ''_-''),
           Cap (alts [Lit ''hd'', Lit ''sd'', Lit ''hq'', Lit ''lq'', Lit ''4k'', Lit ''2k'',
                      Lit ''1080'', Lit ''720'', Lit ''480'', Lit ''360'', Lit ''240'',
                      Lit ''144'']),
           Cls (OneOf ''_-'')]"

definition qualityPatterns :: "rx list" where
  "qualityPatterns = [qHeightP, qWidthOfWxH, qHeightOfWxH, qQualityParam, qItag, qRes, qToken]"

definition itagMap :: "(int \<times> string) list" where
  "itagMap =
     [(18, ''360p''), (22, ''720p''), (37, ''1080p''), (38, ''3072p''),
      (82, ''360p 3D''), (83, ''480p 3D''), (84, ''720p 3D''), (85, ''1080p 3D''),
      (133, ''240p''), (134, ''360p''), (135, ''480p''), (136, ''720p''), (137, ''1080p''),
      (138, ''2160p''), (160, ''144p''), (242, ''240p''), (243, ''360p''), (244, ''480p''),
      (247, ''720p''), (248, ''1080p''), (271, ''1440p''), (313, ''2160p'')]"

text \<open>
  What \<open>detectQuality\<close> returns for the text \<open>val\<close> of group 1: the body of its loop
  after a match. \<open>/^\d+$/.test(val)\<close> is the anchored test of \<open>\d+$\<close>. \<open>num\<close> is the
  integer that the digits denote; \<open>parseInt\<close> returns the double nearest to it, which
  is \<open>num\<close> itself below \<open>2 ^ 53\<close> and which is 1000 or more exactly when \<open>num\<close> is.
\<close>

definition qualityOfMatch :: "string \<Rightarrow> QualityLabel" where
  "qualityOfMatch val =
     (if rx_test_anchored False (Seq (Rep Digit 1 None) Eos) val
      then let num = digitsVal val
           in if num \<ge> 1000
              then (if num < 9007199254740992 then Label (showNat num @ ''p'')
                    else NumeralP num)
              else (case map_of itagMap num of
                      Some label \<Rightarrow> Label label
                    | None \<Rightarrow> Label val)
      else Label val)"

text \<open>
  The loop over the patterns: the first pattern that matches returns. A match whose
  group 1 took no part returns \<open>undefined\<close>.
\<close>

fun firstQuality :: "rx list \<Rightarrow> string \<Rightarrow> QualityLabel option" where
  "firstQuality [] url = None"
| "firstQuality (pattern # rest) url =
     (case rx_exec True pattern url of
        None \<Rightarrow> firstQuality rest url
      | Some None \<Rightarrow> None
      | Some (Some val) \<Rightarrow> Some (qualityOfMatch val))"

definition detectQuality :: "string \<Rightarrow> QualityLabel option" where
  "detectQuality url = firstQuality qualityPatterns url"

subsection \<open>Responses\<close>

text \<open>The value of the first header of that name, compared in lower case.\<close>

definition headerValue :: "HttpHeader list option \<Rightarrow> string \<Rightarrow> string option" where
  "headerValue responseHeaders name =
     (case responseHeaders of
        None \<Rightarrow> None
      | Some hs \<Rightarrow>
          (case find (\<lambda>h. toLowerCase (h_name h) = name) hs of
             None \<Rightarrow> None
           | Some h \<Rightarrow> h_value h))"

definition contentTypeOf :: "HttpHeader list option \<Rightarrow> string" where
  "contentTypeOf responseHeaders =
     (case headerValue responseHeaders ''content-type'' of
        None \<Rightarrow> []
      | Some v \<Rightarrow> toLowerCase v)"

definition sizeOf :: "HttpHeader list option \<Rightarrow> jsnum option" where
  "sizeOf responseHeaders =
     (case headerValue responseHeaders ''content-length'' of
        None \<Rightarrow> None
      | Some contentLength \<Rightarrow> if contentLength = [] then None else Some (parseInt10 contentLength))"

text \<open>\<open>statusCode && (statusCode < 200 || statusCode >= 400)\<close>.\<close>

definition failedStatus :: "int option \<Rightarrow> bool" where
  "failedStatus statusCode =
     (case statusCode of None \<Rightarrow> False | Some c \<Rightarrow> c \<noteq> 0 \<and> (c < 200 \<or> c \<ge> 400))"

text \<open>The three layers that let a response through: MIME type, URL, weak heuristic.\<close>

definition classified :: "WebResponseDetails \<Rightarrow> bool" where
  "classified details =
     (let url = wr_url details; contentType = contentTypeOf (wr_responseHeaders details)
      in isVideoMime contentType \<or> isVideoUrl url
         \<or> (isMediaType (wr_type details) \<and> looksLikeVideo url contentType))"

text \<open>
  \<open>size && size < 5000 && streamType !== 'hls' && streamType !== 'dash'\<close>.
\<close>

definition tooSmall :: "jsnum option \<Rightarrow> StreamType \<Rightarrow> bool" where
  "tooSmall sz streamType =
     (truthyNum sz \<and> numLess sz 5000 \<and> streamType \<noteq> hls \<and> streamType \<noteq> dash)"

text \<open>The record that \<open>handleResponse\<close> builds; \<open>now\<close> is the value of \<open>Date.now()\<close>.\<close>

definition mkStream :: "WebResponseDetails \<Rightarrow> int \<Rightarrow> DetectedStream" where
  "mkStream details now =
     (let url = wr_url details; contentType = contentTypeOf (wr_responseHeaders details)
      in \<lparr>ds_url = url,
          ds_type = detectStreamType url contentType,
          ds_size = sizeOf (wr_responseHeaders details),
          ds_quality = detectQuality url,
          ds_contentType = (if contentType = [] then None else Some contentType),
          ds_timestamp = now\<rparr>)"

text \<open>
  \<open>addStream\<close>: the array of the tab, or an empty one; an equal URL or a similar one is
  dropped; the stream is pushed and, past 30 entries, the first entry is shifted out.
  The message that announces the stream is sent to the other parts of the extension
  and is not part of this state.
\<close>

definition addStream :: "StreamDetector \<Rightarrow> int \<Rightarrow> DetectedStream \<Rightarrow> StreamDetector" where
  "addStream st tabId stream =
     (let existing = (case streams st tabId of None \<Rightarrow> [] | Some l \<Rightarrow> l)
      in if list_ex (\<lambda>s. ds_url s = ds_url stream) existing then st
         else
           let baseUrl = splitQuery0 (ds_url stream);
               hasSimilar =
                 list_ex (\<lambda>s. splitQuery0 (ds_url s) = baseUrl \<and> ds_type s = ds_type stream)
                   existing
           in if hasSimilar \<and> ds_type stream \<noteq> hls \<and> ds_type stream \<noteq> dash then st
              else
                let pushed = existing @ [stream];
                    kept = (if length pushed > 30 then tl pushed else pushed)
                in st\<lparr>streams := (streams st)(tabId \<mapsto> kept)\<rparr>)"

definition handleResponse :: "StreamDetector \<Rightarrow> WebResponseDetails \<Rightarrow> int \<Rightarrow> StreamDetector" where
  "handleResponse st details now =
     (if wr_tabId details < 0 then st
      else if failedStatus (wr_statusCode details) then st
      else if isExcluded (wr_url details) then st
      else if classified details
      then let stream = mkStream details now
           in if tooSmall (ds_size stream) (ds_type stream) then st
              else addStream st (wr_tabId details) stream
      else st)"

definition getStreams :: "StreamDetector \<Rightarrow> int \<Rightarrow> DetectedStream list" where
  "getStreams st tabId = (case streams st tabId of None \<Rightarrow> [] | Some l \<Rightarrow> l)"

definition clearStreams :: "StreamDetector \<Rightarrow> int \<Rightarrow> StreamDetector" where
  "clearStreams st tabId = st\<lparr>streams := (streams st)(tabId \<mapsto> [])\<rparr>"

subsection \<open>The listeners\<close>

text \<open>
  What the listeners of \<open>setupListeners\<close> do to the state. Both response listeners call
  \<open>handleResponse\<close>; a removed tab loses its entry; a tab that starts loading a new URL
  gets an empty array.
\<close>

record ChangeInfo =
  ci_status :: "string option"
  ci_url :: "string option"

datatype event =
    ResponseStarted WebResponseDetails int
  | HeadersReceived WebResponseDetails int
  | TabRemoved int
  | TabUpdated int ChangeInfo
  | ClearStreams int

definition onUpdated :: "StreamDetector \<Rightarrow> int \<Rightarrow> ChangeInfo \<Rightarrow> StreamDetector" where
  "onUpdated st tabId changeInfo =
     (if ci_status changeInfo = Some ''loading''
         \<and> (case ci_url changeInfo of None \<Rightarrow> False | Some u \<Rightarrow> u \<noteq> [])
      then st\<lparr>streams := (streams st)(tabId \<mapsto> [])\<rparr> else st)"

fun step :: "StreamDetector \<Rightarrow> event \<Rightarrow> StreamDetector" where
  "step st (ResponseStarted details now) = handleResponse st details now"
| "step st (HeadersReceived details now) = handleResponse st details now"
| "step st (TabRemoved tabId) = st\<lparr>streams := (streams st)(tabId := None)\<rparr>"
| "step st (TabUpdated tabId changeInfo) = onUpdated st tabId changeInfo"
| "step st (ClearStreams tabId) = clearStreams st tabId"

definition run :: "event list \<Rightarrow> StreamDetector" where
  "run events = foldl step newStreamDetector events"

subsection \<open>The steps of the kind cascade\<close>

text \<open>
  The first of the six steps of \<open>detectStreamType\<close> that the URL alone passes, and the
  first that the content type alone passes (6 when there is none), and the kind that
  each step returns.
\<close>

definition urlStep :: "string \<Rightarrow> nat" where
  "urlStep url =
     (let urlLower = toLowerCase url
      in if includes_str urlLower ''.m3u8'' then 0
         else if includes_str urlLower ''.mpd'' then 1
         else if includes_str urlLower ''.mp4'' \<or> includes_str urlLower ''.m4v'' then 2
         else if includes_str urlLower ''.webm'' then 3
         else if includes_str urlLower ''.flv'' then 4
         else if includes_str urlLower ''.ts'' \<or> includes_str urlLower ''.m4s'' then 5
         else 6)"

definition mimeStep :: "string \<Rightarrow> nat" where
  "mimeStep contentType =
     (let ctLower = toLowerCase contentType
      in if includes_str ctLower ''mpegurl'' \<or> includes_str ctLower ''x-mpegurl'' then 0
         else if includes_str ctLower ''dash'' then 1
         else if includes_str ctLower ''mp4'' then 2
         else if includes_str ctLower ''webm'' then 3
         else if includes_str ctLower ''flv'' then 4
         else if includes_str ctLower ''mp2t'' then 5
         else 6)"

definition stepKind :: "nat \<Rightarrow> StreamType" where
  "stepKind i = (if i < 6 then [hls, dash, mp4, webm, flv, hls] ! i else unknown)"

subsection \<open>The order of the quality rules in the specification\<close>



subsection \<open>Well-formed states\<close>

text \<open>The two properties that every list of a reachable state has.\<close>

definition wellFormed :: "StreamDetector \<Rightarrow> bool" where
  "wellFormed st =
     (\<forall>t l. streams st t = Some l \<longrightarrow> distinct (map ds_url l) \<and> length l \<le> 30)"

section \<open>The DOM scanner\<close>

datatype VideoPlatform = youtube | vimeo | html5 | streamPlatform | unknownPlatform

text \<open>
  \<open>VideoInfo\<close> without its \<open>title\<close> and \<open>duration\<close>: free text for display and a
  floating-point number. No key, count or stream of the scanner depends on them, and
  the code that computes them reads the document only and cannot throw.
\<close>

record VideoInfo =
  vi_platform :: VideoPlatform
  vi_videoId :: "string option"
  vi_url :: string
  vi_thumbnailUrl :: "string option"
  vi_streams :: "DetectedStream list option"
  vi_sourceUrl :: "string option"

text \<open>
  What the scanner reads of the document. \<open>se_src\<close>, \<open>ve_src\<close> and \<open>if_src\<close> are the
  \<open>src\<close> properties, which the browser has resolved to absolute URLs and which are
  empty when there is no attribute; \<open>se_srcAttr\<close> and \<open>if_dataSrc\<close> are attributes as
  \<open>getAttribute\<close> returns them. The width and height are those of
  \<open>getBoundingClientRect\<close>; their product is exact here, and a double in the browser.
  \<open>ve_sources\<close> lists the \<open>source\<close> elements inside the video, in document order, and
  \<open>doc_orphanSources\<close> those of the document that are inside no video.
\<close>

record SourceElement =
  se_src :: string
  se_srcAttr :: "string option"
  se_type :: string

record VideoElement =
  ve_width :: real
  ve_height :: real
  ve_src :: string
  ve_currentSrc :: string
  ve_sources :: "SourceElement list"

record IframeElement =
  if_src :: string
  if_dataSrc :: "string option"

record Document =
  doc_href :: string
  doc_videos :: "VideoElement list"
  doc_iframes :: "IframeElement list"
  doc_orphanSources :: "SourceElement list"

text \<open>\<open>[^&\n?#]+\<close> and \<open>\d+\<close> in group 1.\<close>

definition idChars :: rx where
  "idChars = Cap (Rep (NoneOf [CHR ''&'', CHR 0x0A, CHR ''?'', CHR ''#'']) 1 None)"

definition digitsGroup :: rx where
  "digitsGroup = Cap (Rep Digit 1 None)"

text \<open>The loop of \<open>extractYouTubeVideoId\<close>: group 1 of the first pattern that matches.\<close>

fun firstGroup :: "rx list \<Rightarrow> string \<Rightarrow> string option" where
  "firstGroup [] url = None"
| "firstGroup (pattern # rest) url =
     (case rx_exec False pattern url of None \<Rightarrow> firstGroup rest url | Some g \<Rightarrow> g)"

definition extractYouTubeVideoId :: "string \<Rightarrow> string option" where
  "extractYouTubeVideoId url =
     firstGroup
       [Seq (alts [Lit ''youtube.com/watch?v='', Lit ''youtu.be/'', Lit ''youtube.com/embed/''])
          idChars,
        Seq (Lit ''youtube.com/shorts/'') idChars,
        Seq (Lit ''youtube.com/live/'') idChars]
       url"

text \<open>A group that took no part prints as \<open>undefined\<close> in a template literal.\<close>

definition groupText :: "string option \<Rightarrow> string" where
  "groupText g = (case g of None \<Rightarrow> ''undefined'' | Some t \<Rightarrow> t)"

definition detectYouTube :: "Document \<Rightarrow> VideoInfo option" where
  "detectYouTube doc =
     (let url = doc_href doc
      in if \<not> includes_str url ''youtube.com'' \<and> \<not> includes_str url ''youtu.be'' then None
         else
           (case extractYouTubeVideoId url of
              None \<Rightarrow> None
            | Some videoId \<Rightarrow>
                if videoId = [] then None
                else Some \<lparr>vi_platform = youtube, vi_videoId = Some videoId, vi_url = url,
                  vi_thumbnailUrl =
                    Some (''https://img.youtube.com/vi/'' @ videoId @ ''/maxresdefault.jpg''),
                  vi_streams = None, vi_sourceUrl = None\<rparr>))"

definition detectVimeo :: "Document \<Rightarrow> VideoInfo option" where
  "detectVimeo doc =
     (let url = doc_href doc
      in if \<not> includes_str url ''vimeo.com'' then None
         else
           (case rx_exec False (Seq (Lit ''vimeo.com/'') digitsGroup) url of
              None \<Rightarrow> None
            | Some videoId \<Rightarrow>
                Some \<lparr>vi_platform = vimeo, vi_videoId = videoId, vi_url = url,
                  vi_thumbnailUrl = Some (''https://vumbnail.com/'' @ groupText videoId @ ''.jpg''),
                  vi_streams = None, vi_sourceUrl = None\<rparr>))"

definition detectStreamTypeFromUrl :: "string \<Rightarrow> StreamType" where
  "detectStreamTypeFromUrl url =
     (if rx_test True (Lit ''.m3u8'') url then hls
      else if rx_test True (Lit ''.mpd'') url then dash
      else if rx_test True (Lit ''.mp4'') url then mp4
      else if rx_test True (Lit ''.webm'') url then webm
      else if rx_test True (Lit ''.flv'') url then flv
      else unknown)"

text \<open>\<open>now\<close> is the value of \<open>Date.now()\<close> during the scan.\<close>

definition extractVideoSources :: "VideoElement \<Rightarrow> int \<Rightarrow> DetectedStream list" where
  "extractVideoSources video now =
     (if ve_src video \<noteq> [] \<and> \<not> startsWith (ve_src video) ''blob:''
      then [\<lparr>ds_url = ve_src video, ds_type = detectStreamTypeFromUrl (ve_src video),
             ds_size = None, ds_quality = None, ds_contentType = None, ds_timestamp = now\<rparr>]
      else [])
     @ map (\<lambda>source.
              \<lparr>ds_url = se_src source, ds_type = detectStreamTypeFromUrl (se_src source),
               ds_size = None, ds_quality = None,
               ds_contentType = (if se_type source = [] then None else Some (se_type source)),
               ds_timestamp = now\<rparr>)
         (filter (\<lambda>source. se_src source \<noteq> [] \<and> \<not> startsWith (se_src source) ''blob:'')
            (ve_sources video))"

definition html5Info :: "Document \<Rightarrow> int \<Rightarrow> VideoElement \<Rightarrow> VideoInfo" where
  "html5Info doc now video =
     (let sourceUrl0 = (if ve_src video \<noteq> [] then ve_src video else ve_currentSrc video);
          sourceUrl =
            (if sourceUrl0 \<noteq> [] then sourceUrl0
             else (case ve_sources video of [] \<Rightarrow> [] | sourceEl # _ \<Rightarrow> se_src sourceEl));
          isBlobUrl = startsWith sourceUrl ''blob:''
      in \<lparr>vi_platform = html5, vi_videoId = None, vi_url = doc_href doc,
          vi_thumbnailUrl = None,
          vi_streams = Some (extractVideoSources video now),
          vi_sourceUrl = (if isBlobUrl then None else Some sourceUrl)\<rparr>)"

definition detectAllHTML5Videos :: "Document \<Rightarrow> int \<Rightarrow> VideoInfo list" where
  "detectAllHTML5Videos doc now =
     map (html5Info doc now)
       (filter (\<lambda>video. \<not> ve_width video * ve_height video < 10000) (doc_videos doc))"

definition iframeInfo :: "IframeElement \<Rightarrow> VideoInfo list" where
  "iframeInfo iframe =
     (let src = (if if_src iframe \<noteq> [] then if_src iframe
                 else (case if_dataSrc iframe of None \<Rightarrow> [] | Some d \<Rightarrow> d))
      in case rx_exec False (Seq (Lit ''youtube.com/embed/'') (Cap (Rep (NoneOf ''?&'') 1 None))) src of
           Some ytMatch \<Rightarrow>
             [\<lparr>vi_platform = youtube, vi_videoId = ytMatch, vi_url = src,
               vi_thumbnailUrl =
                 Some (''https://img.youtube.com/vi/'' @ groupText ytMatch @ ''/maxresdefault.jpg''),
               vi_streams = None, vi_sourceUrl = None\<rparr>]
         | None \<Rightarrow>
             (case rx_exec False (Seq (Lit ''player.vimeo.com/video/'') digitsGroup) src of
                Some vimeoMatch \<Rightarrow>
                  [\<lparr>vi_platform = vimeo, vi_videoId = vimeoMatch, vi_url = src,
                    vi_thumbnailUrl =
                      Some (''https://vumbnail.com/'' @ groupText vimeoMatch @ ''.jpg''),
                    vi_streams = None, vi_sourceUrl = None\<rparr>]
              | None \<Rightarrow>
                  if includes_str src ''video'' \<or> includes_str src ''player''
                     \<or> includes_str src ''embed''
                  then [\<lparr>vi_platform = html5, vi_videoId = None, vi_url = src,
                         vi_thumbnailUrl = None, vi_streams = None, vi_sourceUrl = None\<rparr>]
                  else []))"

definition detectIframeVideos :: "Document \<Rightarrow> VideoInfo list" where
  "detectIframeVideos doc = concat (map iframeInfo (doc_iframes doc))"

text \<open>
  The selector \<open>source[src*=".mp4"], source[src*=".webm"], source[src*=".m3u8"]\<close> on the
  sources that are inside no video; those inside a video are skipped by the loop.
\<close>

definition selectedSource :: "SourceElement \<Rightarrow> bool" where
  "selectedSource source =
     (case se_srcAttr source of
        None \<Rightarrow> False
      | Some a \<Rightarrow> includes_str a ''.mp4'' \<or> includes_str a ''.webm'' \<or> includes_str a ''.m3u8'')"

definition detectSourceTags :: "Document \<Rightarrow> int \<Rightarrow> VideoInfo list" where
  "detectSourceTags doc now =
     concat (map (\<lambda>source.
        (case se_srcAttr source of
           None \<Rightarrow> []
         | Some src \<Rightarrow>
             if src = [] then []
             else [\<lparr>vi_platform = html5, vi_videoId = None, vi_url = doc_href doc,
                    vi_thumbnailUrl = None,
                    vi_streams =
                      Some [\<lparr>ds_url = src, ds_type = detectStreamTypeFromUrl src, ds_size = None,
                             ds_quality = None, ds_contentType = None, ds_timestamp = now\<rparr>],
                    vi_sourceUrl = Some src\<rparr>]))
       (filter selectedSource (doc_orphanSources doc)))"

text \<open>\<open>video.videoId || video.sourceUrl || video.url\<close>.\<close>

definition videoKey :: "VideoInfo \<Rightarrow> string" where
  "videoKey video =
     (let byId = (case vi_videoId video of None \<Rightarrow> [] | Some i \<Rightarrow> i);
          bySource = (case vi_sourceUrl video of None \<Rightarrow> [] | Some u \<Rightarrow> u)
      in if byId \<noteq> [] then byId else if bySource \<noteq> [] then bySource else vi_url video)"

fun dedupFrom :: "string set \<Rightarrow> VideoInfo list \<Rightarrow> VideoInfo list" where
  "dedupFrom seen [] = []"
| "dedupFrom seen (video # rest) =
     (if videoKey video \<in> seen then dedupFrom seen rest
      else video # dedupFrom (insert (videoKey video) seen) rest)"

definition deduplicateVideos :: "VideoInfo list \<Rightarrow> VideoInfo list" where
  "deduplicateVideos videos = dedupFrom {} videos"

definition detectAll :: "Document \<Rightarrow> int \<Rightarrow> VideoInfo list" where
  "detectAll doc now =
     deduplicateVideos
       ((case detectYouTube doc of None \<Rightarrow> [] | Some youtubeInfo \<Rightarrow> [youtubeInfo])
        @ (case detectVimeo doc of None \<Rightarrow> [] | Some vimeoInfo \<Rightarrow> [vimeoInfo])
        @ detectAllHTML5Videos doc now
        @ detectIframeVideos doc
        @ detectSourceTags doc now)"

text \<open>The candidate of a video with one nested source, of the kinds \<open>mp4\<close> and \<open>webm\<close>.\<close>

definition mp4WebmCandidate :: "Document \<Rightarrow> int \<Rightarrow> VideoElement \<Rightarrow> SourceElement \<Rightarrow> VideoInfo" where
  "mp4WebmCandidate doc now video source =
     \<lparr>vi_platform = html5, vi_videoId = None, vi_url = doc_href doc, vi_thumbnailUrl = None,
      vi_streams =
        Some [\<lparr>ds_url = ve_src video, ds_type = mp4, ds_size = None, ds_quality = None,
               ds_contentType = None, ds_timestamp = now\<rparr>,
              \<lparr>ds_url = se_src source, ds_type = webm, ds_size = None, ds_quality = None,
               ds_contentType = (if se_type source = [] then None else Some (se_type source)),
               ds_timestamp = now\<rparr>],
      vi_sourceUrl = Some (ve_src video)\<rparr>"

section \<open>Inputs of the examples\<close>

definition adResponse :: WebResponseDetails where
  "adResponse =
     \<lparr>wr_url = ''https://example.com/ad/tracking/video.mp4?x=1'', wr_tabId = 1,
      wr_type = ''media'', wr_statusCode = Some 200,
      wr_responseHeaders = Some [\<lparr>h_name = ''Content-Type'', h_value = Some ''video/mp4''\<rparr>]\<rparr>"



definition lengthResponse :: "string \<Rightarrow> string option \<Rightarrow> WebResponseDetails" where
  "lengthResponse url len =
     \<lparr>wr_url = url, wr_tabId = 1, wr_type = ''media'', wr_statusCode = Some 200,
      wr_responseHeaders =
        Some [\<lparr>h_name = ''Content-Type'', h_value = Some ''video/mp4''\<rparr>,
              \<lparr>h_name = ''Content-Length'', h_value = len\<rparr>]\<rparr>"

definition mediaResponse :: "string \<Rightarrow> WebResponseDetails" where
  "mediaResponse url =
     \<lparr>wr_url = url, wr_tabId = 1, wr_type = ''media'', wr_statusCode = Some 200,
      wr_responseHeaders = None\<rparr>"

definition thirtyMovies :: "event list" where
  "thirtyMovies =
     map (\<lambda>c. ResponseStarted (mediaResponse (''http://e.io/'' @ [c] @ ''.mp4'')) 0)
       ''abcdefghijklmnopqrstuvwxyz0123''"

definition theVideo :: "string \<Rightarrow> string \<Rightarrow> VideoElement" where
  "theVideo a b =
     \<lparr>ve_width = 640, ve_height = 360, ve_src = a, ve_currentSrc = a,
      ve_sources = [\<lparr>se_src = b, se_srcAttr = Some ''b.webm'', se_type = ''video/webm''\<rparr>]\<rparr>"

definition pageWithIframe :: Document where
  "pageWithIframe =
     \<lparr>doc_href = ''https://example.com/page'',
      doc_videos = [theVideo ''https://example.com/a.mp4'' ''https://example.com/b.webm''],
      doc_iframes = [\<lparr>if_src = ''https://example.com/embed/1'', if_dataSrc = None\<rparr>],
      doc_orphanSources = []\<rparr>"

definition plainPage :: Document where
  "plainPage =
     \<lparr>doc_href = ''https://example.com/page'',
      doc_videos = [theVideo ''https://example.com/a.mp4'' ''https://example.com/b.webm''],
      doc_iframes = [],
      doc_orphanSources = []\<rparr>"

definition pageUnderMpd :: Document where
  "pageUnderMpd =
     \<lparr>doc_href = ''https://example.com/page'',
      doc_videos =
        [theVideo ''https://example.com/v.mpd/a.mp4'' ''https://example.com/v.mpd/b.webm''],
      doc_iframes = [],
      doc_orphanSources = []\<rparr>"

section \<open>Evaluation\<close>

subsection \<open>The character tests on the bits of a character\<close>

text \<open>
  The same functions on the eight bits of a character, least significant first. These
  equations are the ones evaluation uses.
\<close>

lemma lowerChar_Char [code]:
  "lowerChar (Char b0 b1 b2 b3 b4 b5 b6 b7) =
     (if \<not> b5 \<and> b6 \<and>
         ((\<not> b7 \<and> (b0 \<or> b1 \<or> b2 \<or> b3 \<or> b4) \<and> \<not> (b4 \<and> b3 \<and> (b2 \<or> (b1 \<and> b0))))
          \<or> (b7 \<and> \<not> (b0 \<and> b1 \<and> b2 \<and> b4)))
      then Char b0 b1 b2 b3 b4 True b6 b7 else Char b0 b1 b2 b3 b4 b5 b6 b7)"
  by (cases b0; cases b1; cases b2; cases b3; cases b4; cases b5; cases b6; cases b7;
      simp add: lowerChar_def code_def char_of_def bit_Suc_0_iff)

lemma upperAscii_Char [code]:
  "upperAscii (Char b0 b1 b2 b3 b4 b5 b6 b7) =
     (if b5 \<and> b6 \<and> \<not> b7 \<and> (b0 \<or> b1 \<or> b2 \<or> b3 \<or> b4)
         \<and> \<not> (b4 \<and> b3 \<and> (b2 \<or> (b1 \<and> b0)))
      then Char b0 b1 b2 b3 b4 False b6 b7 else Char b0 b1 b2 b3 b4 b5 b6 b7)"
  by (cases b0; cases b1; cases b2; cases b3; cases b4; cases b5; cases b6; cases b7;
      simp add: upperAscii_def code_def char_of_def bit_Suc_0_iff)


lemma isWordChar_Char [code]:
  "isWordChar (Char b0 b1 b2 b3 b4 b5 b6 b7) =
     (\<not> b7 \<and>
      ((b4 \<and> b5 \<and> \<not> b6 \<and> \<not> (b3 \<and> (b2 \<or> b1)))
       \<or> (b6 \<and> (b0 \<or> b1 \<or> b2 \<or> b3 \<or> b4) \<and> \<not> (b4 \<and> b3 \<and> (b2 \<or> (b1 \<and> b0))))
       \<or> (b0 \<and> b1 \<and> b2 \<and> b3 \<and> b4 \<and> \<not> b5 \<and> b6)))"
  by (cases b0; cases b1; cases b2; cases b3; cases b4; cases b5; cases b6; cases b7;
      simp add: isWordChar_def code_def)



section \<open>Searching a longer string\<close>

text \<open>A pattern found in a string is found in every string that ends with it.\<close>

lemma rx_exec_append_left:
  "rx_exec ci r s \<noteq> None \<Longrightarrow> rx_exec ci r (p @ s) \<noteq> None"
proof (induction p)
  case Nil
  then show ?case by simp
next
  case (Cons x p)
  then show ?case by (cases "ms ci r (None, x # p @ s)") auto
qed

lemma rx_test_append_left: "rx_test ci r s \<Longrightarrow> rx_test ci r (p @ s)"
  unfolding rx_test_def by (rule rx_exec_append_left)

lemma isExcluded_append_left: "isExcluded s \<Longrightarrow> isExcluded (p @ s)"
  unfolding isExcluded_def list_ex_iff by (blast intro: rx_test_append_left)

lemma isVideoUrl_append_left: "isVideoUrl s \<Longrightarrow> isVideoUrl (p @ s)"
  unfolding isVideoUrl_def list_ex_iff by (blast intro: rx_test_append_left)

section \<open>Exclusion comes first\<close>

lemma excluded_tail: "isExcluded ''/ad/tracking/video.mp4?x=1''"
  by code_simp

lemma videoUrl_tail: "isVideoUrl ''/ad/tracking/video.mp4?x=1''"
  by code_simp

text \<open>
  C2. A response whose URL matches an exclusion pattern leaves the state as it was,
  whatever its content type, its request kind and the inclusion rules say. Every URL
  that ends with \<open>/ad/tracking/video.mp4?x=1\<close> matches the \<open>.mp4\<close> rule of the URL
  allow-list, so it is classified as a stream, and is rejected all the same.
\<close>

theorem exclusion_precedes_inclusion:
  "(isExcluded (wr_url details) \<longrightarrow> handleResponse st details now = st) \<and>
   (wr_url details = pre @ ''/ad/tracking/video.mp4?x=1'' \<longrightarrow>
      isVideoUrl (wr_url details) \<and> classified details \<and> handleResponse st details now = st)"
  by (auto simp: handleResponse_def classified_def Let_def
      intro: isExcluded_append_left [OF excluded_tail] isVideoUrl_append_left [OF videoUrl_tail])

theorem exclusion_precedes_inclusion_witness:
  "isExcluded (wr_url adResponse) \<and> isVideoMime (contentTypeOf (wr_responseHeaders adResponse))
   \<and> isVideoUrl (wr_url adResponse)
   \<and> handleResponse newStreamDetector adResponse 0 = newStreamDetector"
proof -
  have e: "isExcluded (wr_url adResponse)" by code_simp
  have m: "isVideoMime (contentTypeOf (wr_responseHeaders adResponse))" by code_simp
  have u: "wr_url adResponse = ''https://example.com'' @ ''/ad/tracking/video.mp4?x=1''"
    by (simp add: adResponse_def)
  from exclusion_precedes_inclusion [of adResponse newStreamDetector 0 "''https://example.com''"] e m u
  show ?thesis by blast
qed

section \<open>The content type \<open>image/png\<close>\<close>





section \<open>The size floor\<close>

text \<open>
  A response of kind \<open>mp4\<close> whose \<open>content-length\<close> is \<open>0\<close> reports a size below 5000
  and is stored.
\<close>

theorem zero_length_retained:
  "sizeOf (wr_responseHeaders (lengthResponse ''https://example.com/movie.mp4'' (Some ''0'')))
     = Some (Num 0) \<and>
   classified (lengthResponse ''https://example.com/movie.mp4'' (Some ''0'')) \<and>
   getStreams
     (handleResponse newStreamDetector
        (lengthResponse ''https://example.com/movie.mp4'' (Some ''0'')) 0) 1 =
     [\<lparr>ds_url = ''https://example.com/movie.mp4'', ds_type = mp4, ds_size = Some (Num 0),
       ds_quality = None, ds_contentType = Some ''video/mp4'', ds_timestamp = 0\<rparr>]"
  by code_simp

text \<open>
  C6, amended. A classified response whose \<open>content-length\<close> parses to a number other
  than zero and below 5000 is dropped unless its kind is \<open>hls\<close> or \<open>dash\<close>; with one of
  these kinds, and past the earlier checks, it goes on to \<open>addStream\<close>.
\<close>

theorem size_floor:
  "sizeOf (wr_responseHeaders details) = Some (Num n) \<Longrightarrow> n \<noteq> 0 \<Longrightarrow> n < 5000 \<Longrightarrow>
   classified details \<Longrightarrow>
   (ds_type (mkStream details now) \<noteq> hls \<and> ds_type (mkStream details now) \<noteq> dash
      \<longrightarrow> handleResponse st details now = st) \<and>
   ((ds_type (mkStream details now) = hls \<or> ds_type (mkStream details now) = dash)
    \<and> 0 \<le> wr_tabId details \<and> \<not> failedStatus (wr_statusCode details)
    \<and> \<not> isExcluded (wr_url details)
      \<longrightarrow> handleResponse st details now
            = addStream st (wr_tabId details) (mkStream details now))"
  by (auto simp: handleResponse_def tooSmall_def truthyNum_def numLess_def mkStream_def Let_def)


theorem size_floor_witness:
  "handleResponse newStreamDetector
     (lengthResponse ''https://example.com/movie.mp4'' (Some ''1200'')) 0 = newStreamDetector \<and>
   getStreams
     (handleResponse newStreamDetector
        (lengthResponse ''https://example.com/master.m3u8'' (Some ''1200'')) 0) 1 =
     [\<lparr>ds_url = ''https://example.com/master.m3u8'', ds_type = hls, ds_size = Some (Num 1200),
       ds_quality = None, ds_contentType = Some ''video/mp4'', ds_timestamp = 0\<rparr>]"
proof -
  let ?a = "lengthResponse ''https://example.com/movie.mp4'' (Some ''1200'')"
  let ?b = "lengthResponse ''https://example.com/master.m3u8'' (Some ''1200'')"
  have sa: "sizeOf (wr_responseHeaders ?a) = Some (Num 1200)" by code_simp
  have ca: "classified ?a" by code_simp
  have ta: "ds_type (mkStream ?a 0) = mp4" by code_simp
  have sb: "sizeOf (wr_responseHeaders ?b) = Some (Num 1200)" by code_simp
  have cb: "classified ?b" by code_simp
  have tb: "ds_type (mkStream ?b 0) = hls" by code_simp
  have gb: "0 \<le> wr_tabId ?b \<and> \<not> failedStatus (wr_statusCode ?b) \<and> \<not> isExcluded (wr_url ?b)"
    by code_simp
  have rb: "getStreams (addStream newStreamDetector (wr_tabId ?b) (mkStream ?b 0)) 1 =
     [\<lparr>ds_url = ''https://example.com/master.m3u8'', ds_type = hls, ds_size = Some (Num 1200),
       ds_quality = None, ds_contentType = Some ''video/mp4'', ds_timestamp = 0\<rparr>]"
    by code_simp
  have "handleResponse newStreamDetector ?a 0 = newStreamDetector"
    using size_floor [OF sa _ _ ca, of 0 newStreamDetector] ta by simp
  moreover have "handleResponse newStreamDetector ?b 0
      = addStream newStreamDetector (wr_tabId ?b) (mkStream ?b 0)"
    using size_floor [OF sb _ _ cb, of 0 newStreamDetector] tb gb by simp
  ultimately show ?thesis using rb by simp
qed

lemma tooSmall_iff:
  "tooSmall (sizeOf hdrs) k \<longleftrightarrow>
     (\<exists>v n. headerValue hdrs ''content-length'' = Some v \<and> parseInt10 v = Num n
            \<and> n \<noteq> 0 \<and> n < 5000) \<and> k \<noteq> hls \<and> k \<noteq> dash"
proof (cases "headerValue hdrs ''content-length''")
  case None
  then show ?thesis by (simp add: tooSmall_def sizeOf_def truthyNum_def numLess_def)
next
  case (Some v)
  have e: "parseInt10 [] = NaN" by (simp add: parseInt10_def)
  show ?thesis
  proof (cases "parseInt10 v")
    case NaN
    with Some show ?thesis by (simp add: tooSmall_def sizeOf_def truthyNum_def numLess_def)
  next
    case (Num n)
    with Some e show ?thesis
      by (auto simp: tooSmall_def sizeOf_def truthyNum_def numLess_def)
  qed
qed

lemma parseInt10_zero: "parseInt10 ''0'' = Num 0"
  by code_simp

text \<open>
  C10. When the \<open>content-length\<close> header is absent, is \<open>0\<close> or does not parse, the size
  floor does not reject, whatever the kind: a response that passes the earlier checks
  and the classification goes on to \<open>addStream\<close>, and is the one entry of a list that
  was empty. The size floor rejects exactly when the header parses to a number other
  than zero and below 5000 and the kind is neither \<open>hls\<close> nor \<open>dash\<close>.
\<close>

theorem missing_length_passes_size_floor:
  "(headerValue (wr_responseHeaders details) ''content-length'' = None
    \<or> headerValue (wr_responseHeaders details) ''content-length'' = Some ''0''
    \<or> (\<exists>v. headerValue (wr_responseHeaders details) ''content-length'' = Some v
            \<and> parseInt10 v = NaN)
    \<longrightarrow> \<not> tooSmall (sizeOf (wr_responseHeaders details)) k
        \<and> (0 \<le> wr_tabId details \<and> \<not> failedStatus (wr_statusCode details)
           \<and> \<not> isExcluded (wr_url details) \<and> classified details
           \<longrightarrow> handleResponse st details now
                 = addStream st (wr_tabId details) (mkStream details now))
        \<and> (0 \<le> wr_tabId details \<and> \<not> failedStatus (wr_statusCode details)
           \<and> \<not> isExcluded (wr_url details) \<and> classified details
           \<and> getStreams st (wr_tabId details) = []
           \<longrightarrow> getStreams (handleResponse st details now) (wr_tabId details)
                 = [mkStream details now]))
   \<and> (tooSmall (sizeOf (wr_responseHeaders details)) k \<longleftrightarrow>
        (\<exists>v n. headerValue (wr_responseHeaders details) ''content-length'' = Some v
               \<and> parseInt10 v = Num n \<and> n \<noteq> 0 \<and> n < 5000)
        \<and> k \<noteq> hls \<and> k \<noteq> dash)"
proof -
  let ?h = "wr_responseHeaders details"
  let ?absent = "headerValue ?h ''content-length'' = None
    \<or> headerValue ?h ''content-length'' = Some ''0''
    \<or> (\<exists>v. headerValue ?h ''content-length'' = Some v \<and> parseInt10 v = NaN)"
  have floor: "\<not> tooSmall (sizeOf ?h) k'" if ?absent for k'
    using that parseInt10_zero by (auto simp: tooSmall_iff)
  have pass: "handleResponse st details now
      = addStream st (wr_tabId details) (mkStream details now)"
    if ?absent "0 \<le> wr_tabId details" "\<not> failedStatus (wr_statusCode details)"
      "\<not> isExcluded (wr_url details)" "classified details"
    using that(2-5) floor [OF that(1)]
    by (simp add: handleResponse_def Let_def mkStream_def)
  have fresh: "getStreams (addStream st t s) t = [s]" if "getStreams st t = []" for t s
    using that by (auto simp: addStream_def getStreams_def Let_def split: option.splits)
  show ?thesis
  proof (intro conjI impI)
    assume a: ?absent
    show "\<not> tooSmall (sizeOf ?h) k" by (rule floor [OF a])
    show "handleResponse st details now = addStream st (wr_tabId details) (mkStream details now)"
      if "0 \<le> wr_tabId details \<and> \<not> failedStatus (wr_statusCode details)
           \<and> \<not> isExcluded (wr_url details) \<and> classified details"
      using pass [OF a] that by blast
    show "getStreams (handleResponse st details now) (wr_tabId details) = [mkStream details now]"
      if "0 \<le> wr_tabId details \<and> \<not> failedStatus (wr_statusCode details)
           \<and> \<not> isExcluded (wr_url details) \<and> classified details
           \<and> getStreams st (wr_tabId details) = []"
      using pass [OF a] fresh that by simp
  next
    show "tooSmall (sizeOf ?h) k \<longleftrightarrow>
        (\<exists>v n. headerValue ?h ''content-length'' = Some v
               \<and> parseInt10 v = Num n \<and> n \<noteq> 0 \<and> n < 5000)
        \<and> k \<noteq> hls \<and> k \<noteq> dash"
      by (rule tooSmall_iff)
  qed
qed


lemma movie_guards:
  "0 \<le> wr_tabId (lengthResponse ''https://example.com/movie.mp4'' len) \<and>
   \<not> failedStatus (wr_statusCode (lengthResponse ''https://example.com/movie.mp4'' len)) \<and>
   \<not> isExcluded (wr_url (lengthResponse ''https://example.com/movie.mp4'' len)) \<and>
   classified (lengthResponse ''https://example.com/movie.mp4'' len) \<and>
   getStreams newStreamDetector (wr_tabId (lengthResponse ''https://example.com/movie.mp4'' len)) = []"
proof -
  have "\<not> isExcluded ''https://example.com/movie.mp4''" by code_simp
  moreover have "isVideoUrl ''https://example.com/movie.mp4''" by code_simp
  ultimately show ?thesis
    by (simp add: lengthResponse_def failedStatus_def classified_def Let_def getStreams_def
        newStreamDetector_def)
qed

theorem missing_length_passes_size_floor_witness:
  "ds_type (mkStream (lengthResponse ''https://example.com/movie.mp4'' None) 0) = mp4 \<and>
   getStreams
     (handleResponse newStreamDetector
        (lengthResponse ''https://example.com/movie.mp4'' None) 0) 1
     = [mkStream (lengthResponse ''https://example.com/movie.mp4'' None) 0] \<and>
   getStreams
     (handleResponse newStreamDetector
        (lengthResponse ''https://example.com/movie.mp4'' (Some ''0'')) 0) 1
     = [mkStream (lengthResponse ''https://example.com/movie.mp4'' (Some ''0'')) 0] \<and>
   getStreams
     (handleResponse newStreamDetector
        (lengthResponse ''https://example.com/movie.mp4'' (Some ''unknown'')) 0) 1
     = [mkStream (lengthResponse ''https://example.com/movie.mp4'' (Some ''unknown'')) 0] \<and>
   tooSmall
     (sizeOf (wr_responseHeaders (lengthResponse ''https://example.com/movie.mp4'' (Some ''1200''))))
     mp4"
proof -
  let ?d = "lengthResponse ''https://example.com/movie.mp4''"
  have t: "ds_type (mkStream (?d None) 0) = mp4" by code_simp
  have i: "wr_tabId (?d len) = 1" for len by (simp add: lengthResponse_def)
  have h0: "headerValue (wr_responseHeaders (?d None)) ''content-length'' = None"
    by code_simp
  have h1: "headerValue (wr_responseHeaders (?d (Some ''0''))) ''content-length'' = Some ''0''"
    by code_simp
  have h2: "headerValue (wr_responseHeaders (?d (Some ''unknown''))) ''content-length''
      = Some ''unknown'' \<and> parseInt10 ''unknown'' = NaN"
    by code_simp
  have h3: "headerValue (wr_responseHeaders (?d (Some ''1200''))) ''content-length''
      = Some ''1200'' \<and> parseInt10 ''1200'' = Num 1200"
    by code_simp
  have "getStreams (handleResponse newStreamDetector (?d None) 0) 1 = [mkStream (?d None) 0]"
    using missing_length_passes_size_floor [of "?d None" mp4 newStreamDetector 0, unfolded i]
      h0 movie_guards [of None, unfolded i] by blast
  moreover have "getStreams (handleResponse newStreamDetector (?d (Some ''0'')) 0) 1
      = [mkStream (?d (Some ''0'')) 0]"
    using missing_length_passes_size_floor
        [of "?d (Some ''0'')" mp4 newStreamDetector 0, unfolded i]
      h1 movie_guards [of "Some ''0''", unfolded i] by blast
  moreover have "getStreams (handleResponse newStreamDetector (?d (Some ''unknown'')) 0) 1
      = [mkStream (?d (Some ''unknown'')) 0]"
    using missing_length_passes_size_floor
        [of "?d (Some ''unknown'')" mp4 newStreamDetector 0, unfolded i]
      h2 movie_guards [of "Some ''unknown''", unfolded i] by blast
  moreover have "tooSmall (sizeOf (wr_responseHeaders (?d (Some ''1200'')))) mp4"
    using missing_length_passes_size_floor [of "?d (Some ''1200'')" mp4 newStreamDetector 0]
      h3 by auto
  ultimately show ?thesis using t by blast
qed

section \<open>The list of a tab\<close>

lemma getStreams_addStream:
  "getStreams (addStream st t s) t =
     (if addStream st t s = st then getStreams st t
      else if length (getStreams st t) < 30 then getStreams st t @ [s]
      else tl (getStreams st t @ [s]))"
  by (auto simp: addStream_def getStreams_def Let_def split: option.splits)

lemma getStreams_addStream_other:
  "t' \<noteq> t \<Longrightarrow> getStreams (addStream st t s) t' = getStreams st t'"
  by (auto simp: addStream_def getStreams_def Let_def split: option.splits)

lemma addStream_accepted_fresh:
  "addStream st t s \<noteq> st \<Longrightarrow> ds_url s \<notin> ds_url ` set (getStreams st t)"
  by (auto simp: addStream_def getStreams_def Let_def list_ex_iff split: option.splits if_splits)

lemma addStream_exact_duplicate:
  "ds_url s \<in> ds_url ` set (getStreams st t) \<Longrightarrow> addStream st t s = st"
  using addStream_accepted_fresh by blast

lemma wellFormed_getStreams:
  "wellFormed st \<Longrightarrow> distinct (map ds_url (getStreams st t)) \<and> length (getStreams st t) \<le> 30"
  by (auto simp: wellFormed_def getStreams_def split: option.splits)

lemma wellFormed_addStream:
  assumes "wellFormed st"
  shows "wellFormed (addStream st t s)"
proof (cases "addStream st t s = st")
  case True
  with assms show ?thesis by simp
next
  case False
  let ?old = "getStreams st t"
  from False have fresh: "ds_url s \<notin> ds_url ` set ?old"
    by (rule addStream_accepted_fresh)
  from assms have old: "distinct (map ds_url ?old)" "length ?old \<le> 30"
    using wellFormed_getStreams by blast+
  let ?kept = "if length (?old @ [s]) > 30 then tl (?old @ [s]) else ?old @ [s]"
  from fresh old have d: "distinct (map ds_url (?old @ [s]))" by auto
  have dk: "distinct (map ds_url ?kept)"
    using d by (auto simp: map_tl distinct_tl simp del: map_append)
  have lk: "length ?kept \<le> 30" using old(2) by auto
  from False have upd: "addStream st t s = st\<lparr>streams := (streams st)(t \<mapsto> ?kept)\<rparr>"
    by (auto simp: addStream_def getStreams_def Let_def split: option.splits if_splits)
  show ?thesis
    unfolding upd wellFormed_def
    using assms dk lk by (auto simp: wellFormed_def)
qed

lemma wellFormed_handleResponse:
  "wellFormed st \<Longrightarrow> wellFormed (handleResponse st details now)"
  by (simp add: handleResponse_def Let_def wellFormed_addStream)

lemma wellFormed_step:
  assumes "wellFormed st"
  shows "wellFormed (step st e)"
proof (cases e)
  case (ResponseStarted details now)
  with assms show ?thesis by (simp add: wellFormed_handleResponse)
next
  case (HeadersReceived details now)
  with assms show ?thesis by (simp add: wellFormed_handleResponse)
next
  case (TabRemoved tabId)
  with assms show ?thesis by (auto simp: wellFormed_def)
next
  case (TabUpdated tabId changeInfo)
  with assms show ?thesis by (auto simp: wellFormed_def onUpdated_def)
next
  case (ClearStreams tabId)
  with assms show ?thesis by (auto simp: wellFormed_def clearStreams_def)
qed

lemma wellFormed_foldl: "wellFormed st \<Longrightarrow> wellFormed (foldl step st events)"
  by (induction events arbitrary: st) (simp_all add: wellFormed_step)

lemma wellFormed_run: "wellFormed (run events)"
  unfolding run_def by (rule wellFormed_foldl) (simp add: wellFormed_def newStreamDetector_def)

text \<open>
  C3. After any sequence of responses, tab removals, tab updates and clears, the list
  that \<open>getStreams\<close> returns for a tab has no two entries with the same URL; and
  \<open>addStream\<close> leaves every state as it is when the URL of the stream is already in the
  list of the tab.
\<close>

theorem urls_unique:
  "distinct (map ds_url (getStreams (run events) tabId)) \<and>
   (ds_url stream \<in> ds_url ` set (getStreams st tabId) \<longrightarrow> addStream st tabId stream = st)"
  using wellFormed_getStreams [OF wellFormed_run] addStream_exact_duplicate by blast

lemma addStream_stored:
  assumes "\<not> list_ex (\<lambda>s. ds_url s = ds_url stream) (getStreams st tabId)"
    and "\<not> (list_ex (\<lambda>s. splitQuery0 (ds_url s) = splitQuery0 (ds_url stream)
                            \<and> ds_type s = ds_type stream) (getStreams st tabId)
             \<and> ds_type stream \<noteq> hls \<and> ds_type stream \<noteq> dash)"
  shows "getStreams (addStream st tabId stream) tabId =
           (if length (getStreams st tabId @ [stream]) > 30
            then tl (getStreams st tabId @ [stream]) else getStreams st tabId @ [stream])"
  using assms by (auto simp: addStream_def getStreams_def Let_def split: option.splits)

lemma addStream_dropped:
  assumes "list_ex (\<lambda>s. ds_url s = ds_url stream) (getStreams st tabId)
     \<or> (list_ex (\<lambda>s. splitQuery0 (ds_url s) = splitQuery0 (ds_url stream)
                        \<and> ds_type s = ds_type stream) (getStreams st tabId)
         \<and> ds_type stream \<noteq> hls \<and> ds_type stream \<noteq> dash)"
  shows "addStream st tabId stream = st"
  using assms by (auto simp: addStream_def getStreams_def Let_def split: option.splits)

lemma no_entry_with:
  "v \<notin> set (map f xs) \<Longrightarrow> \<not> list_ex (\<lambda>x. f x = v \<and> P x) xs"
  by (induction xs) auto

text \<open>
  C4. After any sequence of events the list of a tab has at most 30 entries. A stream
  that passes the two duplicate checks of \<open>addStream\<close> is stored: it is appended at the
  end, the order of the other entries is kept, and the new stream is the last entry;
  into a list of 30 entries the first, oldest entry is dropped and is then no longer
  in the list. A stream that fails a check leaves the state as it was, so the newest
  entry is never the one that is removed.
\<close>

theorem bounded_fifo:
  "length (getStreams (run events) tabId) \<le> 30 \<and>
   (\<not> list_ex (\<lambda>s. ds_url s = ds_url stream) (getStreams (run events) tabId)
    \<and> \<not> (list_ex (\<lambda>s. splitQuery0 (ds_url s) = splitQuery0 (ds_url stream)
                           \<and> ds_type s = ds_type stream) (getStreams (run events) tabId)
           \<and> ds_type stream \<noteq> hls \<and> ds_type stream \<noteq> dash)
    \<longrightarrow>
      getStreams (addStream (run events) tabId stream) tabId =
        (if length (getStreams (run events) tabId) < 30
         then getStreams (run events) tabId @ [stream]
         else tl (getStreams (run events) tabId) @ [stream]) \<and>
      last (getStreams (addStream (run events) tabId stream) tabId) = stream \<and>
      (length (getStreams (run events) tabId) = 30 \<longrightarrow>
         hd (getStreams (run events) tabId)
           \<notin> set (getStreams (addStream (run events) tabId stream) tabId))) \<and>
   (list_ex (\<lambda>s. ds_url s = ds_url stream) (getStreams (run events) tabId)
    \<or> (list_ex (\<lambda>s. splitQuery0 (ds_url s) = splitQuery0 (ds_url stream)
                       \<and> ds_type s = ds_type stream) (getStreams (run events) tabId)
        \<and> ds_type stream \<noteq> hls \<and> ds_type stream \<noteq> dash)
    \<longrightarrow> addStream (run events) tabId stream = run events) \<and>
   (addStream (run events) tabId stream \<noteq> run events \<longrightarrow>
      getStreams (addStream (run events) tabId stream) tabId =
        (if length (getStreams (run events) tabId) < 30
         then getStreams (run events) tabId @ [stream]
         else tl (getStreams (run events) tabId) @ [stream]) \<and>
      (length (getStreams (run events) tabId) = 30 \<longrightarrow>
         hd (getStreams (run events) tabId)
           \<notin> set (getStreams (addStream (run events) tabId stream) tabId)))"
proof -
  let ?st = "run events"
  let ?old = "getStreams ?st tabId"
  let ?new = "getStreams (addStream ?st tabId stream) tabId"
  let ?exact = "list_ex (\<lambda>s. ds_url s = ds_url stream) ?old"
  let ?similar = "list_ex (\<lambda>s. splitQuery0 (ds_url s) = splitQuery0 (ds_url stream)
                           \<and> ds_type s = ds_type stream) ?old
           \<and> ds_type stream \<noteq> hls \<and> ds_type stream \<noteq> dash"
  have wf: "distinct (map ds_url ?old)" "length ?old \<le> 30"
    using wellFormed_getStreams [OF wellFormed_run] by blast+
  have stored: "?new = (if length ?old < 30 then ?old @ [stream] else tl ?old @ [stream])
      \<and> last ?new = stream \<and> (length ?old = 30 \<longrightarrow> hd ?old \<notin> set ?new)"
    if checks: "\<not> ?exact \<and> \<not> ?similar"
  proof -
    from checks have fresh: "ds_url stream \<notin> ds_url ` set ?old"
      by (auto simp: list_ex_iff)
    have new: "?new = (if length ?old < 30 then ?old @ [stream] else tl ?old @ [stream])"
    proof (cases "?old")
      case Nil
      then show ?thesis using checks by (simp add: addStream_stored)
    next
      case (Cons x xs)
      then show ?thesis using checks wf(2) by (simp add: addStream_stored)
    qed
    have gone: "hd ?old \<notin> set (tl ?old @ [stream])" if "length ?old = 30"
    proof (cases "?old")
      case Nil
      with that show ?thesis by simp
    next
      case (Cons x xs)
      with wf(1) fresh show ?thesis by auto
    qed
    from new gone show ?thesis by simp
  qed
  have dropped: "addStream ?st tabId stream = ?st" if "?exact \<or> ?similar"
    using that by (rule addStream_dropped)
  have changed: "?new = (if length ?old < 30 then ?old @ [stream] else tl ?old @ [stream])
      \<and> (length ?old = 30 \<longrightarrow> hd ?old \<notin> set ?new)"
    if "addStream ?st tabId stream \<noteq> ?st"
  proof -
    from that dropped have "\<not> ?exact \<and> \<not> ?similar" by blast
    then show ?thesis using stored by blast
  qed
  show ?thesis
  proof (intro conjI)
    show "length ?old \<le> 30" by (rule wf(2))
    show "\<not> ?exact \<and> \<not> ?similar \<longrightarrow>
      ?new = (if length ?old < 30 then ?old @ [stream] else tl ?old @ [stream])
      \<and> last ?new = stream \<and> (length ?old = 30 \<longrightarrow> hd ?old \<notin> set ?new)"
      using stored by blast
    show "?exact \<or> ?similar \<longrightarrow> addStream ?st tabId stream = ?st"
      using dropped by blast
    show "addStream ?st tabId stream \<noteq> ?st \<longrightarrow>
      ?new = (if length ?old < 30 then ?old @ [stream] else tl ?old @ [stream])
      \<and> (length ?old = 30 \<longrightarrow> hd ?old \<notin> set ?new)"
      using changed by blast
  qed
qed

theorem urls_unique_witness:
  "distinct (map ds_url (getStreams (run
      [ResponseStarted (mediaResponse ''https://example.com/movie.mp4'') 1,
       HeadersReceived (mediaResponse ''https://example.com/movie.mp4'') 2]) 1)) \<and>
   map ds_url (getStreams (run
      [ResponseStarted (mediaResponse ''https://example.com/movie.mp4'') 1,
       HeadersReceived (mediaResponse ''https://example.com/movie.mp4'') 2]) 1)
     = [''https://example.com/movie.mp4''] \<and>
   addStream (run [ResponseStarted (mediaResponse ''https://example.com/movie.mp4'') 1]) 1
       (mkStream (mediaResponse ''https://example.com/movie.mp4'') 2)
     = run [ResponseStarted (mediaResponse ''https://example.com/movie.mp4'') 1]"
proof -
  let ?r = "mediaResponse ''https://example.com/movie.mp4''"
  have m: "map ds_url (getStreams (run [ResponseStarted ?r 1, HeadersReceived ?r 2]) 1)
      = [''https://example.com/movie.mp4'']"
    by code_simp
  have "map ds_url (getStreams (run [ResponseStarted ?r 1]) 1) = [''https://example.com/movie.mp4'']"
    by code_simp
  moreover have "ds_url (mkStream ?r 2) = ''https://example.com/movie.mp4''"
    by (simp add: mkStream_def mediaResponse_def Let_def)
  ultimately have d: "ds_url (mkStream ?r 2) \<in> ds_url ` set (getStreams (run [ResponseStarted ?r 1]) 1)"
    by (metis list.set_intros(1) set_map)
  from urls_unique [of "[ResponseStarted ?r 1, HeadersReceived ?r 2]" 1 "mkStream ?r 2"
      "run [ResponseStarted ?r 1]"] m d
  show ?thesis by blast
qed

theorem bounded_fifo_witness:
  "length (getStreams (run thirtyMovies) 1) = 30 \<and>
   map (\<lambda>s. (ds_url s, ds_type s)) (getStreams (run thirtyMovies) 1)
     = map (\<lambda>c. (''http://e.io/'' @ [c] @ ''.mp4'', mp4)) ''abcdefghijklmnopqrstuvwxyz0123'' \<and>
   getStreams
      (addStream (run thirtyMovies) 1 (mkStream (mediaResponse ''http://e.io/4.mp4'') 1)) 1
     = tl (getStreams (run thirtyMovies) 1) @ [mkStream (mediaResponse ''http://e.io/4.mp4'') 1] \<and>
   last (getStreams
      (addStream (run thirtyMovies) 1 (mkStream (mediaResponse ''http://e.io/4.mp4'') 1)) 1)
     = mkStream (mediaResponse ''http://e.io/4.mp4'') 1 \<and>
   hd (getStreams (run thirtyMovies) 1)
     \<notin> set (getStreams
          (addStream (run thirtyMovies) 1 (mkStream (mediaResponse ''http://e.io/4.mp4'') 1)) 1)"
proof -
  let ?s = "mkStream (mediaResponse ''http://e.io/4.mp4'') 1"
  let ?old = "getStreams (run thirtyMovies) 1"
  have old: "map (\<lambda>s. (ds_url s, ds_type s)) ?old
      = map (\<lambda>c. (''http://e.io/'' @ [c] @ ''.mp4'', mp4)) ''abcdefghijklmnopqrstuvwxyz0123''"
    by code_simp
  have len: "length ?old = 30"
    using arg_cong [OF old, of length] by simp
  have s: "ds_url ?s = ''http://e.io/4.mp4''"
    by (simp add: mkStream_def mediaResponse_def Let_def)
  have urls: "map ds_url ?old
      = map (\<lambda>c. ''http://e.io/'' @ [c] @ ''.mp4'') ''abcdefghijklmnopqrstuvwxyz0123''"
    using arg_cong [OF old, of "map fst"] by (simp add: comp_def)
  have "ds_url ?s \<notin> set (map ds_url ?old)"
    unfolding urls s by simp
  then have "\<not> list_ex (\<lambda>x. ds_url x = ds_url ?s \<and> True) ?old"
    by (rule no_entry_with)
  then have exact: "\<not> list_ex (\<lambda>x. ds_url x = ds_url ?s) ?old"
    by simp
  have bases: "map (\<lambda>x. splitQuery0 (ds_url x)) ?old = map splitQuery0 (map ds_url ?old)"
    by simp
  have "splitQuery0 (ds_url ?s) \<notin> set (map (\<lambda>x. splitQuery0 (ds_url x)) ?old)"
    unfolding bases urls s by (simp add: splitQuery0_def)
  then have similar: "\<not> list_ex (\<lambda>x. splitQuery0 (ds_url x) = splitQuery0 (ds_url ?s)
                           \<and> ds_type x = ds_type ?s) ?old"
    by (rule no_entry_with)
  let ?new = "getStreams (addStream (run thirtyMovies) 1 ?s) 1"
  from bounded_fifo [of thirtyMovies 1 ?s] exact similar
  have stored: "?new = (if length ?old < 30 then ?old @ [?s] else tl ?old @ [?s])
      \<and> last ?new = ?s \<and> (length ?old = 30 \<longrightarrow> hd ?old \<notin> set ?new)"
    by blast
  have n1: "?new = tl ?old @ [?s]" using stored len by simp
  have n2: "last ?new = ?s" using stored by blast
  have n3: "hd ?old \<notin> set ?new" using stored len by blast
  show ?thesis
  proof (intro conjI)
    show "length ?old = 30" by (rule len)
    show "map (\<lambda>s. (ds_url s, ds_type s)) ?old
      = map (\<lambda>c. (''http://e.io/'' @ [c] @ ''.mp4'', mp4)) ''abcdefghijklmnopqrstuvwxyz0123''"
      by (rule old)
    show "?new = tl ?old @ [?s]" by (rule n1)
    show "last ?new = ?s" by (rule n2)
    show "hd ?old \<notin> set ?new" by (rule n3)
  qed
qed

lemma addStream_similar:
  assumes "list_ex (\<lambda>s. splitQuery0 (ds_url s) = splitQuery0 (ds_url stream)
                          \<and> ds_type s = ds_type stream) (getStreams st tabId)"
    and "ds_type stream \<noteq> hls" and "ds_type stream \<noteq> dash"
  shows "addStream st tabId stream = st"
  using assms by (auto simp: addStream_def getStreams_def Let_def split: option.splits)

lemma addStream_segment:
  assumes "ds_type stream = hls \<or> ds_type stream = dash"
    and "\<not> list_ex (\<lambda>s. ds_url s = ds_url stream) (getStreams st tabId)"
  shows "getStreams (addStream st tabId stream) tabId =
           (if length (getStreams st tabId @ [stream]) > 30
            then tl (getStreams st tabId @ [stream]) else getStreams st tabId @ [stream])"
  using assms by (auto simp: addStream_def getStreams_def Let_def split: option.splits)

lemma two_mp4_one_entry:
  "map (\<lambda>s. (ds_url s, ds_type s))
     (getStreams (run [ResponseStarted (mediaResponse ''https://example.com/video.mp4?t=1'') 1,
                       ResponseStarted (mediaResponse ''https://example.com/video.mp4?t=2'') 2]) 1)
     = [(''https://example.com/video.mp4?t=1'', mp4)]"
  by code_simp

lemma two_segments_two_entries:
  "map (\<lambda>s. (ds_url s, ds_type s))
     (getStreams (run [ResponseStarted (mediaResponse ''https://example.com/seg1.ts'') 1,
                       ResponseStarted (mediaResponse ''https://example.com/seg2.ts'') 2]) 1)
     = [(''https://example.com/seg1.ts'', hls), (''https://example.com/seg2.ts'', hls)]"
  by code_simp

text \<open>
  C5. A stream whose URL without its query string equals that of an entry of the same
  kind is rejected when its kind is neither \<open>hls\<close> nor \<open>dash\<close>; a stream of kind \<open>hls\<close>
  or \<open>dash\<close> whose exact URL is not in the list is appended. Two responses to
  \<open>video.mp4?t=1\<close> and \<open>video.mp4?t=2\<close> leave one entry of kind \<open>mp4\<close>; two
  responses to \<open>seg1.ts\<close> and \<open>seg2.ts\<close> leave two entries of kind \<open>hls\<close>.
\<close>

theorem near_duplicates:
  "(list_ex (\<lambda>s. splitQuery0 (ds_url s) = splitQuery0 (ds_url stream)
                  \<and> ds_type s = ds_type stream) (getStreams st tabId)
    \<and> ds_type stream \<noteq> hls \<and> ds_type stream \<noteq> dash
    \<longrightarrow> addStream st tabId stream = st) \<and>
   ((ds_type stream = hls \<or> ds_type stream = dash)
    \<and> \<not> list_ex (\<lambda>s. ds_url s = ds_url stream) (getStreams st tabId)
    \<longrightarrow> getStreams (addStream st tabId stream) tabId =
          (if length (getStreams st tabId @ [stream]) > 30
           then tl (getStreams st tabId @ [stream]) else getStreams st tabId @ [stream])) \<and>
   map (\<lambda>s. (ds_url s, ds_type s))
     (getStreams (run [ResponseStarted (mediaResponse ''https://example.com/video.mp4?t=1'') 1,
                       ResponseStarted (mediaResponse ''https://example.com/video.mp4?t=2'') 2]) 1)
     = [(''https://example.com/video.mp4?t=1'', mp4)] \<and>
   map (\<lambda>s. (ds_url s, ds_type s))
     (getStreams (run [ResponseStarted (mediaResponse ''https://example.com/seg1.ts'') 1,
                       ResponseStarted (mediaResponse ''https://example.com/seg2.ts'') 2]) 1)
     = [(''https://example.com/seg1.ts'', hls), (''https://example.com/seg2.ts'', hls)]"
  using addStream_similar [of stream st tabId] addStream_segment [of stream st tabId]
    two_mp4_one_entry two_segments_two_entries
  by blast

theorem near_duplicates_witness:
  "addStream (run [ResponseStarted (mediaResponse ''https://example.com/video.mp4?t=1'') 1]) 1
       (mkStream (mediaResponse ''https://example.com/video.mp4?t=2'') 2)
     = run [ResponseStarted (mediaResponse ''https://example.com/video.mp4?t=1'') 1] \<and>
   getStreams
     (addStream (run [ResponseStarted (mediaResponse ''https://example.com/seg.ts?n=1'') 1]) 1
        (mkStream (mediaResponse ''https://example.com/seg.ts?n=2'') 2)) 1
     = getStreams (run [ResponseStarted (mediaResponse ''https://example.com/seg.ts?n=1'') 1]) 1
       @ [mkStream (mediaResponse ''https://example.com/seg.ts?n=2'') 2]"
proof -
  let ?a = "run [ResponseStarted (mediaResponse ''https://example.com/video.mp4?t=1'') 1]"
  let ?s = "mkStream (mediaResponse ''https://example.com/video.mp4?t=2'') 2"
  let ?b = "run [ResponseStarted (mediaResponse ''https://example.com/seg.ts?n=1'') 1]"
  let ?t = "mkStream (mediaResponse ''https://example.com/seg.ts?n=2'') 2"
  have sim: "list_ex (\<lambda>s. splitQuery0 (ds_url s) = splitQuery0 (ds_url ?s)
                          \<and> ds_type s = ds_type ?s) (getStreams ?a 1)"
    by code_simp
  have kind: "ds_type ?s \<noteq> hls \<and> ds_type ?s \<noteq> dash"
    by code_simp
  have seg: "ds_type ?t = hls" by code_simp
  have fresh: "\<not> list_ex (\<lambda>s. ds_url s = ds_url ?t) (getStreams ?b 1)"
    by code_simp
  have short: "\<not> length (getStreams ?b 1 @ [?t]) > 30"
    by code_simp
  from near_duplicates [of ?s ?a 1] sim kind have "addStream ?a 1 ?s = ?a"
    by blast
  moreover from near_duplicates [of ?t ?b 1] seg fresh short
  have "getStreams (addStream ?b 1 ?t) 1 = getStreams ?b 1 @ [?t]"
    by presburger
  ultimately show ?thesis by blast
qed

section \<open>The kind of a stream\<close>

lemma includes_str_Nil: "includes_str [] (c # cs) = False"
  by simp

lemma stepKind_simps:
  "stepKind 0 = hls" "stepKind (Suc 0) = dash" "stepKind 2 = mp4" "stepKind 3 = webm"
  "stepKind 4 = flv" "stepKind 5 = hls" "stepKind 6 = unknown"
  by (simp_all add: stepKind_def)

lemma detectStreamType_steps:
  "detectStreamType url contentType = stepKind (min (urlStep url) (mimeStep contentType))"
proof -
  let ?u = "toLowerCase url" and ?c = "toLowerCase contentType"
  show ?thesis
    unfolding detectStreamType_def urlStep_def mimeStep_def Let_def
    by (cases "includes_str ?u ''.m3u8''"; cases "includes_str ?c ''mpegurl''";
        cases "includes_str ?c ''x-mpegurl''"; simp add: stepKind_simps;
        cases "includes_str ?u ''.mpd''"; cases "includes_str ?c ''dash''";
        simp add: stepKind_simps;
        cases "includes_str ?u ''.mp4''"; cases "includes_str ?u ''.m4v''";
        cases "includes_str ?c ''mp4''"; simp add: stepKind_simps;
        cases "includes_str ?u ''.webm''"; cases "includes_str ?c ''webm''";
        simp add: stepKind_simps;
        cases "includes_str ?u ''.flv''"; cases "includes_str ?c ''flv''";
        simp add: stepKind_simps;
        cases "includes_str ?u ''.ts''"; cases "includes_str ?u ''.m4s''";
        cases "includes_str ?c ''mp2t''"; simp add: stepKind_simps)
qed

lemma urlStep_le: "urlStep url \<le> 6"
  by (simp add: urlStep_def Let_def)

lemma mimeStep_le: "mimeStep contentType \<le> 6"
  by (simp add: mimeStep_def Let_def)

lemma urlStep_Nil: "urlStep [] = 6"
  by (simp add: urlStep_def toLowerCase_def)

lemma mimeStep_Nil: "mimeStep [] = 6"
  by (simp add: mimeStep_def toLowerCase_def)

text \<open>
  A URL that ends in \<open>.webm\<close> with the content type \<open>video/mp4\<close> is of kind \<open>mp4\<close>, the
  kind of the content type; so is a \<open>.ts\<close> segment with that content type.
\<close>

theorem url_against_mime:
  "detectStreamType ''https://example.com/clip.webm'' [] = webm \<and>
   detectStreamType [] ''video/mp4'' = mp4 \<and>
   detectStreamType ''https://example.com/clip.webm'' ''video/mp4'' = mp4 \<and>
   detectStreamType ''https://example.com/seg.ts'' [] = hls \<and>
   detectStreamType ''https://example.com/seg.ts'' ''video/mp4'' = mp4"
  by code_simp

text \<open>
  C7, amended. \<open>detectStreamType\<close> runs six steps in the order \<open>hls\<close> (manifest),
  \<open>dash\<close>, \<open>mp4\<close>, \<open>webm\<close>, \<open>flv\<close>, \<open>hls\<close> (segment), and each step passes on
  the URL or on the content type. The result is the kind of the first step that
  either passes: the kind of the URL alone when the content type passes no earlier
  step, the kind of the content type alone when it passes an earlier step. A URL with
  \<open>.ts\<close> or \<open>.m4s\<close> is of kind \<open>hls\<close> when neither the URL nor the content type
  passes one of the first five steps.
\<close>

theorem kind_by_first_step:
  "detectStreamType url contentType = stepKind (min (urlStep url) (mimeStep contentType)) \<and>
   detectStreamType url [] = stepKind (urlStep url) \<and>
   detectStreamType [] contentType = stepKind (mimeStep contentType) \<and>
   (urlStep url \<le> mimeStep contentType
      \<longrightarrow> detectStreamType url contentType = detectStreamType url []) \<and>
   (mimeStep contentType < urlStep url
      \<longrightarrow> detectStreamType url contentType = detectStreamType [] contentType) \<and>
   ((includes_str (toLowerCase url) ''.ts'' \<or> includes_str (toLowerCase url) ''.m4s'')
    \<and> 5 \<le> urlStep url \<and> 5 \<le> mimeStep contentType
      \<longrightarrow> detectStreamType url contentType = hls)"
proof -
  have u: "detectStreamType url [] = stepKind (urlStep url)"
    using urlStep_le [of url] by (simp add: detectStreamType_steps mimeStep_Nil min_def)
  have m: "detectStreamType [] contentType = stepKind (mimeStep contentType)"
    using mimeStep_le [of contentType] by (simp add: detectStreamType_steps urlStep_Nil min_def)
  have s: "detectStreamType url contentType = hls"
    if "includes_str (toLowerCase url) ''.ts'' \<or> includes_str (toLowerCase url) ''.m4s''"
      "5 \<le> urlStep url" "5 \<le> mimeStep contentType"
  proof -
    from that(1) have "urlStep url \<le> 5" by (auto simp: urlStep_def Let_def)
    with that(2,3) have "min (urlStep url) (mimeStep contentType) = 5" by simp
    then show ?thesis by (simp add: detectStreamType_steps stepKind_simps)
  qed
  have le: "detectStreamType url contentType = detectStreamType url []"
    if "urlStep url \<le> mimeStep contentType"
  proof -
    have "detectStreamType url contentType = stepKind (urlStep url)"
      using that by (simp add: detectStreamType_steps min_def)
    with u show ?thesis by simp
  qed
  have gt: "detectStreamType url contentType = detectStreamType [] contentType"
    if "mimeStep contentType < urlStep url"
  proof -
    have "detectStreamType url contentType = stepKind (mimeStep contentType)"
      using that by (simp add: detectStreamType_steps min_def)
    with m show ?thesis by simp
  qed
  show ?thesis
    using u m s le gt detectStreamType_steps by blast
qed

theorem kind_by_first_step_witness:
  "urlStep ''https://example.com/clip.webm'' = 3 \<and> mimeStep ''video/mp4'' = 2 \<and>
   detectStreamType ''https://example.com/clip.webm'' ''video/mp4''
     = detectStreamType [] ''video/mp4'' \<and>
   urlStep ''https://example.com/clip.mp4'' = 2 \<and> mimeStep ''video/webm'' = 3 \<and>
   detectStreamType ''https://example.com/clip.mp4'' ''video/webm''
     = detectStreamType ''https://example.com/clip.mp4'' [] \<and>
   detectStreamType ''https://example.com/seg.ts'' ''video/mp2t'' = hls"
proof -
  have a: "urlStep ''https://example.com/clip.webm'' = 3 \<and> mimeStep ''video/mp4'' = 2"
    by code_simp
  have b: "urlStep ''https://example.com/clip.mp4'' = 2 \<and> mimeStep ''video/webm'' = 3"
    by code_simp
  have c: "includes_str (toLowerCase ''https://example.com/seg.ts'') ''.ts'' \<and>
    5 \<le> urlStep ''https://example.com/seg.ts'' \<and> 5 \<le> mimeStep ''video/mp2t''"
    by code_simp
  from kind_by_first_step [of "''https://example.com/clip.webm''" "''video/mp4''"] a
  have "detectStreamType ''https://example.com/clip.webm'' ''video/mp4''
     = detectStreamType [] ''video/mp4''" by simp
  moreover from kind_by_first_step [of "''https://example.com/clip.mp4''" "''video/webm''"] b
  have "detectStreamType ''https://example.com/clip.mp4'' ''video/webm''
     = detectStreamType ''https://example.com/clip.mp4'' []" by simp
  moreover from kind_by_first_step [of "''https://example.com/seg.ts''" "''video/mp2t''"] c
  have "detectStreamType ''https://example.com/seg.ts'' ''video/mp2t'' = hls" by blast
  ultimately show ?thesis using a b by blast
qed

section \<open>The quality label\<close>





















section \<open>One video with a nested source\<close>

lemma ends_mp4: "rx_test True (Lit ''.mp4'') (base @ ''a.mp4'')"
proof -
  have "rx_test True (Lit ''.mp4'') ''a.mp4''" by code_simp
  then show ?thesis by (rule rx_test_append_left)
qed

lemma ends_webm: "rx_test True (Lit ''.webm'') (base @ ''b.webm'')"
proof -
  have "rx_test True (Lit ''.webm'') ''b.webm''" by code_simp
  then show ?thesis by (rule rx_test_append_left)
qed

text \<open>
  A page with the one video and an iframe whose URL contains \<open>embed\<close> has two
  candidates. A page whose video URLs contain \<open>.mpd\<close> before \<open>a.mp4\<close> and \<open>b.webm\<close> has
  both streams of kind \<open>dash\<close>.
\<close>

theorem extra_candidates:
  "doc_videos pageWithIframe
     = [theVideo ''https://example.com/a.mp4'' ''https://example.com/b.webm''] \<and>
   map (\<lambda>v. (vi_platform v, vi_url v)) (detectAll pageWithIframe 0)
     = [(html5, ''https://example.com/page''), (html5, ''https://example.com/embed/1'')] \<and>
   map (\<lambda>v. map_option (map (\<lambda>s. (ds_url s, ds_type s))) (vi_streams v)) (detectAll pageUnderMpd 0)
     = [Some [(''https://example.com/v.mpd/a.mp4'', dash),
              (''https://example.com/v.mpd/b.webm'', dash)]]"
  by code_simp

text \<open>
  C9, amended. A document has one video, not smaller than 10000 square pixels, whose
  \<open>src\<close> ends in \<open>a.mp4\<close>, with one nested source whose \<open>src\<close> ends in \<open>b.webm\<close>;
  neither URL starts with \<open>blob:\<close> or contains an extension that
  \<open>detectStreamTypeFromUrl\<close> tests earlier. Then the scan of the videos returns
  exactly one candidate, whose streams are the two URLs with the kinds \<open>mp4\<close> and
  \<open>webm\<close>; and \<open>detectAll\<close> returns exactly this candidate when the scans for
  YouTube, Vimeo, iframes and orphan sources find nothing.
\<close>

theorem one_video_one_candidate:
  assumes "doc_videos doc = [video]"
    and "\<not> ve_width video * ve_height video < 10000"
    and "ve_src video = base @ ''a.mp4''"
    and "\<not> startsWith (ve_src video) ''blob:''"
    and "\<not> rx_test True (Lit ''.m3u8'') (ve_src video)"
    and "\<not> rx_test True (Lit ''.mpd'') (ve_src video)"
    and "ve_sources video = [source]"
    and "se_src source = base' @ ''b.webm''"
    and "\<not> startsWith (se_src source) ''blob:''"
    and "\<not> rx_test True (Lit ''.m3u8'') (se_src source)"
    and "\<not> rx_test True (Lit ''.mpd'') (se_src source)"
    and "\<not> rx_test True (Lit ''.mp4'') (se_src source)"
  shows "detectAllHTML5Videos doc now = [mp4WebmCandidate doc now video source] \<and>
    (detectYouTube doc = None \<and> detectVimeo doc = None \<and> detectIframeVideos doc = []
     \<and> detectSourceTags doc now = []
       \<longrightarrow> detectAll doc now = [mp4WebmCandidate doc now video source])"
proof -
  have tv: "detectStreamTypeFromUrl (ve_src video) = mp4"
    using assms(5,6) ends_mp4 [of base] by (simp add: detectStreamTypeFromUrl_def assms(3))
  have ts: "detectStreamTypeFromUrl (se_src source) = webm"
    using assms(10,11,12) ends_webm [of base'] by (simp add: detectStreamTypeFromUrl_def assms(8))
  have nv: "ve_src video \<noteq> []" by (simp add: assms(3))
  have ns: "se_src source \<noteq> []" by (simp add: assms(8))
  have streams: "extractVideoSources video now =
      [\<lparr>ds_url = ve_src video, ds_type = mp4, ds_size = None, ds_quality = None,
        ds_contentType = None, ds_timestamp = now\<rparr>,
       \<lparr>ds_url = se_src source, ds_type = webm, ds_size = None, ds_quality = None,
        ds_contentType = (if se_type source = [] then None else Some (se_type source)),
        ds_timestamp = now\<rparr>]"
    using nv ns assms(4,9) by (simp add: extractVideoSources_def tv ts assms(7))
  have info: "html5Info doc now video = mp4WebmCandidate doc now video source"
    using nv assms(4) by (simp add: html5Info_def mp4WebmCandidate_def streams Let_def)
  have one: "detectAllHTML5Videos doc now = [mp4WebmCandidate doc now video source]"
    using assms(2) by (simp add: detectAllHTML5Videos_def assms(1) info)
  have "detectAll doc now = [mp4WebmCandidate doc now video source]"
    if "detectYouTube doc = None \<and> detectVimeo doc = None \<and> detectIframeVideos doc = []
     \<and> detectSourceTags doc now = []"
    using that by (simp add: detectAll_def one deduplicateVideos_def)
  with one show ?thesis by blast
qed

theorem one_video_one_candidate_witness:
  "detectAll plainPage 0 =
     [mp4WebmCandidate plainPage 0
        (theVideo ''https://example.com/a.mp4'' ''https://example.com/b.webm'')
        \<lparr>se_src = ''https://example.com/b.webm'', se_srcAttr = Some ''b.webm'',
         se_type = ''video/webm''\<rparr>] \<and>
   length (detectAll plainPage 0) = 1"
proof -
  let ?v = "theVideo ''https://example.com/a.mp4'' ''https://example.com/b.webm''"
  let ?s = "\<lparr>se_src = ''https://example.com/b.webm'', se_srcAttr = Some ''b.webm'',
         se_type = ''video/webm''\<rparr>"
  have 1: "doc_videos plainPage = [?v]" by (simp add: plainPage_def)
  have 2: "\<not> ve_width ?v * ve_height ?v < 10000" by (simp add: theVideo_def)
  have 3: "ve_src ?v = ''https://example.com/'' @ ''a.mp4''" by (simp add: theVideo_def)
  have 4: "\<not> startsWith (ve_src ?v) ''blob:''" by code_simp
  have 5: "\<not> rx_test True (Lit ''.m3u8'') (ve_src ?v)" by code_simp
  have 6: "\<not> rx_test True (Lit ''.mpd'') (ve_src ?v)" by code_simp
  have 7: "ve_sources ?v = [?s]" by (simp add: theVideo_def)
  have 8: "se_src ?s = ''https://example.com/'' @ ''b.webm''" by simp
  have 9: "\<not> startsWith (se_src ?s) ''blob:''" by code_simp
  have 10: "\<not> rx_test True (Lit ''.m3u8'') (se_src ?s)" by code_simp
  have 11: "\<not> rx_test True (Lit ''.mpd'') (se_src ?s)" by code_simp
  have 12: "\<not> rx_test True (Lit ''.mp4'') (se_src ?s)" by code_simp
  have rest: "detectYouTube plainPage = None \<and> detectVimeo plainPage = None
      \<and> detectIframeVideos plainPage = [] \<and> detectSourceTags plainPage 0 = []"
    by code_simp
  from one_video_one_candidate [OF 1 2 3 4 5 6 7 8 9 10 11 12, of 0] rest
  have "detectAll plainPage 0 = [mp4WebmCandidate plainPage 0 ?v ?s]" by blast
  then show ?thesis by simp
qed

end
